theory Spec2Isabelle
  imports Main "HOL-Library.Word"
begin

unbundle bit_operations_syntax

section \<open>Constants\<close>

text \<open>Return codes of constants.h (the second, 2015 version of the header).\<close>

definition C_TRUE :: int where "C_TRUE = 1"
definition C_FALSE :: int where "C_FALSE = 0"
definition C_OK :: int where "C_OK = 0"
definition C_REASSEMBLY_OK :: int where "C_REASSEMBLY_OK = 1"
definition C_ERROR :: int where "C_ERROR = - 1"

text \<open>The anonymous enum of constants.h: type of payload in an RLE packet.\<close>

definition RLE_PDU_COMPLETE :: int where "RLE_PDU_COMPLETE = 0"
definition RLE_PDU_START_FRAG :: int where "RLE_PDU_START_FRAG = 1"
definition RLE_PDU_CONT_FRAG :: int where "RLE_PDU_CONT_FRAG = 2"
definition RLE_PDU_END_FRAG :: int where "RLE_PDU_END_FRAG = 3"

text \<open>
  Modelled from the spec: the header that defines the size limits and the protocol type
  codes is not among the sources. The spec gives their values: an SDU is at most 4088
  bytes (\<open>RLE_MAX_PDU_SIZE\<close>), there are 8 contexts with fragment ids 0 to 7, the
  reserved implicit protocol type is 0x31 and the signalling protocol type is 0x0082.
\<close>

definition RLE_MAX_PDU_SIZE :: nat where "RLE_MAX_PDU_SIZE = 4088"
definition RLE_MAX_FRAG_NUMBER :: nat where "RLE_MAX_FRAG_NUMBER = 8"
definition RLE_MAX_FRAG_ID :: int where "RLE_MAX_FRAG_ID = 7"
definition RLE_PROTO_TYPE_VLAN_COMP_WO_PTYPE_FIELD :: "16 word" where
  "RLE_PROTO_TYPE_VLAN_COMP_WO_PTYPE_FIELD = 0x31"
definition RLE_PROTO_TYPE_SIGNAL_UNCOMP :: "16 word" where
  "RLE_PROTO_TYPE_SIGNAL_UNCOMP = 0x0082"

text \<open>
  Modelled from the spec: the sizes of the headers are not among the sources. The spec
  gives a COMPLETE header of 2 bytes and a protocol type field of 2 bytes uncompressed,
  1 byte compressed.
\<close>

definition RLE_COMPLETE_HEADER_SIZE :: nat where "RLE_COMPLETE_HEADER_SIZE = 2"
definition RLE_PROTO_TYPE_FIELD_SIZE_COMP :: nat where "RLE_PROTO_TYPE_FIELD_SIZE_COMP = 1"
definition RLE_PROTO_TYPE_FIELD_SIZE_UNCOMP :: nat where "RLE_PROTO_TYPE_FIELD_SIZE_UNCOMP = 2"

section \<open>Contexts (rle_ctx.h)\<close>

text \<open>A C pointer is an address; \<open>NULL\<close> is address 0.\<close>

type_synonym ptr = nat

definition NULL :: ptr where "NULL = 0"

text \<open>\<open>struct link_status\<close>: seven \<open>uint64_t\<close> counters, wrapping at \<open>2 ^ 64\<close>.\<close>

record link_status =
  counter_in :: "64 word"
  counter_ok :: "64 word"
  counter_dropped :: "64 word"
  counter_lost :: "64 word"
  counter_bytes_in :: "64 word"
  counter_bytes_ok :: "64 word"
  counter_bytes_dropped :: "64 word"

text \<open>\<open>struct rle_ctx_management\<close>, field by field.\<close>

record rle_ctx_management =
  frag_id :: "8 word"
  next_seq_nb :: "8 word"
  is_fragmented :: int
  frag_counter :: "16 word"
  nb_frag_pdu :: int
  qos_tag :: "32 word"
  use_crc :: int
  buff :: ptr
  pdu_length :: "32 word"
  remaining_pdu_length :: "32 word"
  rle_length :: "32 word"
  alpdu_size :: "32 word"
  remaining_alpdu_size :: "32 word"
  proto_type :: "16 word"
  label_type :: "8 word"
  pdu_buf :: ptr
  buf :: ptr
  end_address :: ptr
  current_counter :: nat
  lk_type :: int
  lk_status :: link_status

subsection \<open>The inline counter functions of rle_ctx.h\<close>

definition rle_ctx_incr_counter_in :: "rle_ctx_management \<Rightarrow> rle_ctx_management" where
  "rle_ctx_incr_counter_in c =
     c\<lparr>lk_status := (lk_status c)\<lparr>counter_in := counter_in (lk_status c) + 1\<rparr>\<rparr>"

definition rle_ctx_incr_counter_dropped :: "rle_ctx_management \<Rightarrow> rle_ctx_management" where
  "rle_ctx_incr_counter_dropped c =
     c\<lparr>lk_status := (lk_status c)\<lparr>counter_dropped := counter_dropped (lk_status c) + 1\<rparr>\<rparr>"

definition rle_ctx_incr_counter_lost ::
  "rle_ctx_management \<Rightarrow> 64 word \<Rightarrow> rle_ctx_management" where
  "rle_ctx_incr_counter_lost c val =
     c\<lparr>lk_status := (lk_status c)\<lparr>counter_lost := counter_lost (lk_status c) + val\<rparr>\<rparr>"

definition rle_ctx_incr_counter_bytes_in ::
  "rle_ctx_management \<Rightarrow> 64 word \<Rightarrow> rle_ctx_management" where
  "rle_ctx_incr_counter_bytes_in c val =
     c\<lparr>lk_status := (lk_status c)\<lparr>counter_bytes_in := counter_bytes_in (lk_status c) + val\<rparr>\<rparr>"

definition rle_ctx_incr_counter_bytes_dropped ::
  "rle_ctx_management \<Rightarrow> 64 word \<Rightarrow> rle_ctx_management" where
  "rle_ctx_incr_counter_bytes_dropped c val =
     c\<lparr>lk_status := (lk_status c)
          \<lparr>counter_bytes_dropped := counter_bytes_dropped (lk_status c) + val\<rparr>\<rparr>"

definition rle_ctx_get_counter_dropped :: "rle_ctx_management \<Rightarrow> 64 word" where
  "rle_ctx_get_counter_dropped c = counter_dropped (lk_status c)"

definition rle_ctx_get_counter_lost :: "rle_ctx_management \<Rightarrow> 64 word" where
  "rle_ctx_get_counter_lost c = counter_lost (lk_status c)"

definition rle_ctx_get_counter_in :: "rle_ctx_management \<Rightarrow> 64 word" where
  "rle_ctx_get_counter_in c = counter_in (lk_status c)"

definition rle_ctx_get_counter_bytes_in :: "rle_ctx_management \<Rightarrow> 64 word" where
  "rle_ctx_get_counter_bytes_in c = counter_bytes_in (lk_status c)"

definition rle_ctx_get_counter_bytes_dropped :: "rle_ctx_management \<Rightarrow> 64 word" where
  "rle_ctx_get_counter_bytes_dropped c = counter_bytes_dropped (lk_status c)"

subsection \<open>The setters of rle_ctx.c that are among the sources\<close>

definition rle_ctx_set_seq_nb :: "rle_ctx_management \<Rightarrow> 8 word \<Rightarrow> rle_ctx_management" where
  "rle_ctx_set_seq_nb c val = c\<lparr>next_seq_nb := val\<rparr>"

definition rle_ctx_set_use_crc :: "rle_ctx_management \<Rightarrow> int \<Rightarrow> rle_ctx_management" where
  "rle_ctx_set_use_crc c val = c\<lparr>use_crc := val\<rparr>"


subsection \<open>The free-context bitmap\<close>

text \<open>
  The bitmap is a \<open>uint8_t\<close>; bit \<open>i\<close> set means context \<open>i\<close> is in use. C evaluates
  \<open>contexts >> frag_id\<close>, \<open>1 << frag_id\<close> and \<open>~\<close> on \<open>int\<close> (32 bits) after integer
  promotion and truncates the result of the compound assignment back to 8 bits. The
  shifts are defined in C for \<open>frag_id < 31\<close> only; every caller modelled here passes a
  fragment id below 8.
\<close>

definition rle_ctx_is_free :: "8 word \<Rightarrow> nat \<Rightarrow> int" where
  "rle_ctx_is_free contexts fid =
     (if drop_bit fid (ucast contexts :: 32 word) AND 1 = 0 then C_TRUE else C_FALSE)"

definition rle_ctx_set_nonfree :: "8 word \<Rightarrow> nat \<Rightarrow> 8 word" where
  "rle_ctx_set_nonfree contexts fid =
     ucast ((ucast contexts :: 32 word) OR push_bit fid 1)"

definition rle_ctx_set_free :: "8 word \<Rightarrow> nat \<Rightarrow> 8 word" where
  "rle_ctx_set_free contexts fid =
     ucast ((ucast contexts :: 32 word) AND NOT (push_bit fid 1))"

section \<open>Configuration\<close>

text \<open>
  Modelled from the spec: \<open>struct rle_context_configuration\<close>, \<open>struct rle_configuration\<close>
  and the functions of rle_conf.c are not among the sources. The spec lists four options,
  the implicit protocol type (16 bits), the ALPDU CRC flag, protocol type compression and
  protocol type omission; the internal structure holds one field for each, named after
  the setter the transmitter calls, and a setter assigns its field.
\<close>

record rle_context_configuration =
  implicit_protocol_type :: "16 word"
  use_alpdu_crc :: int
  use_compressed_ptype :: int
  use_ptype_omission :: int

record rle_configuration =
  default_ptype :: "16 word"
  crc_check :: int
  ptype_compression :: int
  ptype_suppression :: int

definition rle_conf_set_default_ptype ::
  "rle_configuration \<Rightarrow> 16 word \<Rightarrow> rle_configuration" where
  "rle_conf_set_default_ptype c v = c\<lparr>default_ptype := v\<rparr>"

definition rle_conf_set_crc_check :: "rle_configuration \<Rightarrow> int \<Rightarrow> rle_configuration" where
  "rle_conf_set_crc_check c v = c\<lparr>crc_check := v\<rparr>"

definition rle_conf_set_ptype_compression ::
  "rle_configuration \<Rightarrow> int \<Rightarrow> rle_configuration" where
  "rle_conf_set_ptype_compression c v = c\<lparr>ptype_compression := v\<rparr>"

definition rle_conf_set_ptype_suppression ::
  "rle_configuration \<Rightarrow> int \<Rightarrow> rle_configuration" where
  "rle_conf_set_ptype_suppression c v = c\<lparr>ptype_suppression := v\<rparr>"


definition rle_conf_get_ptype_compression :: "rle_configuration \<Rightarrow> int" where
  "rle_conf_get_ptype_compression c = ptype_compression c"

section \<open>Transmitter (rle_transmitter.c)\<close>

text \<open>\<open>struct rle_transmitter\<close>: the array of 8 contexts is a list.\<close>

record rle_transmitter =
  tx_rle_ctx_man :: "rle_ctx_management list"
  tx_rle_conf :: rle_configuration
  tx_free_ctx :: "8 word"

definition tx_set_free_frag_ctx :: "rle_transmitter \<Rightarrow> nat \<Rightarrow> rle_transmitter" where
  "tx_set_free_frag_ctx t ctx_index =
     t\<lparr>tx_free_ctx := rle_ctx_set_free (tx_free_ctx t) ctx_index\<rparr>"

text \<open>\<open>fragment_id\<close> is a \<open>uint8_t\<close>, converted to \<open>size_t\<close> for \<open>set_free_frag_ctx\<close>.\<close>

definition rle_transmitter_free_context :: "rle_transmitter \<Rightarrow> 8 word \<Rightarrow> rle_transmitter" where
  "rle_transmitter_free_context t fragment_id = tx_set_free_frag_ctx t (unat fragment_id)"

text \<open>
  Modelled from the spec: \<open>rle_ctx_set_frag_id\<close> is declared in rle_ctx.h and not defined
  among the sources; it assigns the fragment id of the context.
\<close>

definition rle_ctx_set_frag_id :: "rle_ctx_management \<Rightarrow> 8 word \<Rightarrow> rle_ctx_management" where
  "rle_ctx_set_frag_id c val = c\<lparr>frag_id := val\<rparr>"

text \<open>
  The initialisation loop of \<open>rle_transmitter_new\<close> over the indices still to visit.
  \<open>rle_ctx_init_f_buff\<close> is declared in rle_ctx.h and not defined among the sources: it is
  the parameter \<open>init_f_buff\<close>, and the loop ignores its return code as the source does.
\<close>

fun tx_init_contexts ::
  "(rle_ctx_management \<Rightarrow> rle_ctx_management) \<Rightarrow> nat list \<Rightarrow> rle_ctx_management list
     \<Rightarrow> rle_ctx_management list" where
  "tx_init_contexts init_f_buff [] cs = cs"
| "tx_init_contexts init_f_buff (i # is) cs =
     tx_init_contexts init_f_buff is
       (cs[i := rle_ctx_set_seq_nb
                  (rle_ctx_set_frag_id (init_f_buff (cs ! i)) (of_nat i)) 0])"

text \<open>
  \<open>rle_transmitter_new\<close>. The two allocations are inputs: \<open>mem\<close> is what \<open>MALLOC\<close>
  returns, \<open>None\<close> for \<open>NULL\<close> and otherwise the uninitialised block, and \<open>new_conf\<close> is
  what \<open>rle_conf_new\<close> returns. The result is \<open>None\<close> where the source returns \<open>NULL\<close>.
\<close>

definition rle_transmitter_new ::
  "(rle_ctx_management \<Rightarrow> rle_ctx_management) \<Rightarrow> rle_transmitter option
     \<Rightarrow> rle_configuration option \<Rightarrow> rle_context_configuration \<Rightarrow> rle_transmitter option" where
  "rle_transmitter_new init_f_buff mem new_conf configuration =
     (if implicit_protocol_type configuration = RLE_PROTO_TYPE_VLAN_COMP_WO_PTYPE_FIELD
      then None
      else case mem of
        None \<Rightarrow> None
      | Some transmitter \<Rightarrow>
          (case new_conf of
             None \<Rightarrow> None
           | Some tx_conf \<Rightarrow>
               Some \<lparr>tx_rle_ctx_man =
                       tx_init_contexts init_f_buff [0..<RLE_MAX_FRAG_NUMBER]
                         (tx_rle_ctx_man transmitter),
                     tx_rle_conf =
                       rle_conf_set_ptype_suppression
                         (rle_conf_set_ptype_compression
                            (rle_conf_set_crc_check
                               (rle_conf_set_default_ptype tx_conf
                                  (implicit_protocol_type configuration))
                               (use_alpdu_crc configuration))
                            (use_compressed_ptype configuration))
                         (use_ptype_omission configuration),
                     tx_free_ctx = 0\<rparr>))"

section \<open>Encapsulation (encap.c)\<close>

subsection \<open>The COMPLETE header\<close>

text \<open>
  Modelled from the spec: the header structures are not among the sources. The first two
  bytes of every PPDU are \<open>union rle_header_all\<close>, read through its bit-fields: the start
  and end indicators (one bit each), the packet length (11 bits) and the field
  \<open>LT_T_FID\<close>, which holds the label type and the type indicator in a COMPLETE header and
  the fragment id in the others. \<open>LT_T_FID\<close> is kept in the 16 bits in which
  \<open>get_fragment_id\<close> returns it. The layout of the bit-fields in memory is not modelled.
\<close>

record rle_header_all =
  start_ind :: "1 word"
  end_ind :: "1 word"
  rle_packet_length :: "11 word"
  LT_T_FID :: "16 word"

text \<open>
  The protocol type field after the header is a union of three shapes: compressed
  (\<open>ptype_c_s.c\<close>, one byte), compressed escape (\<open>ptype_c_s.e\<close>, the byte 0xFF and the
  16-bit type) and uncompressed (\<open>ptype_u_s\<close>, the 16-bit type). A 16-bit type is
  modelled by the value its two bytes encode in network order, which is what the source
  stores with \<open>ntohs\<close>.
\<close>

datatype ptype_field = Ptype_c "8 word" | Ptype_e "8 word" "16 word" | Ptype_u "16 word"

text \<open>
  \<open>struct zc_rle_header_complete_w_ptype\<close>, the memory \<open>rle_ctx->buf\<close> points to: the
  two payload pointers, the header and its protocol type field.
\<close>

record zc_rle_header_complete_w_ptype =
  ptrs_start :: ptr
  ptrs_end :: ptr
  head :: rle_header_all
  ptype_s :: ptype_field

text \<open>
  Modelled from the spec: \<open>rle_header_all_set_packet_length\<close> is not among the sources;
  it stores the length in the 11-bit packet length field.
\<close>

definition rle_header_all_set_packet_length :: "rle_header_all \<Rightarrow> nat \<Rightarrow> rle_header_all" where
  "rle_header_all_set_packet_length h len = h\<lparr>rle_packet_length := of_nat len\<rparr>"

text \<open>
  What \<open>create_header\<close> uses and the sources do not hold is a parameter of the model:
  \<open>ptype_is_omissible\<close>, \<open>rle_header_ptype_is_compressible\<close> and
  \<open>rle_header_ptype_compression\<close> of the protocol type table, the four constants for the
  type indicator and the label type, and the three macros that write and read
  \<open>LT_T_FID\<close>.
\<close>

record header_defs =
  ptype_is_omissible :: "16 word \<Rightarrow> rle_configuration \<Rightarrow> int"
  rle_header_ptype_is_compressible :: "16 word \<Rightarrow> int"
  rle_header_ptype_compression :: "16 word \<Rightarrow> 8 word"
  RLE_T_PROTO_TYPE_NO_SUPP :: "8 word"
  RLE_T_PROTO_TYPE_SUPP :: "8 word"
  RLE_LT_IMPLICIT_PROTO_TYPE :: "8 word"
  RLE_LT_PROTO_SIGNAL :: "8 word"
  SET_PROTO_TYPE_SUPP :: "16 word \<Rightarrow> 8 word \<Rightarrow> 16 word"
  SET_LABEL_TYPE :: "16 word \<Rightarrow> 8 word \<Rightarrow> 16 word"
  GET_LABEL_TYPE :: "16 word \<Rightarrow> 8 word"

text \<open>
  Modelled from the spec: the setters of the context that \<open>create_header\<close> calls are
  declared in no source file present (only \<open>rle_ctx_set_seq_nb\<close> and
  \<open>rle_ctx_set_use_crc\<close> are defined). Each assigns the field of the context it names;
  a \<open>size_t\<close> stored in a \<open>uint32_t\<close> field is truncated. \<open>rle_ctx_set_rle_length\<close>
  takes the header size as a third argument and records the length.
\<close>

definition rle_ctx_set_proto_type :: "rle_ctx_management \<Rightarrow> 16 word \<Rightarrow> rle_ctx_management" where
  "rle_ctx_set_proto_type c val = c\<lparr>proto_type := val\<rparr>"

definition rle_ctx_set_end_address :: "rle_ctx_management \<Rightarrow> ptr \<Rightarrow> rle_ctx_management" where
  "rle_ctx_set_end_address c val = c\<lparr>end_address := val\<rparr>"

definition rle_ctx_set_is_fragmented :: "rle_ctx_management \<Rightarrow> int \<Rightarrow> rle_ctx_management" where
  "rle_ctx_set_is_fragmented c val = c\<lparr>is_fragmented := val\<rparr>"

definition rle_ctx_set_frag_counter :: "rle_ctx_management \<Rightarrow> 16 word \<Rightarrow> rle_ctx_management" where
  "rle_ctx_set_frag_counter c val = c\<lparr>frag_counter := val\<rparr>"

definition rle_ctx_set_nb_frag_pdu :: "rle_ctx_management \<Rightarrow> int \<Rightarrow> rle_ctx_management" where
  "rle_ctx_set_nb_frag_pdu c val = c\<lparr>nb_frag_pdu := val\<rparr>"

definition rle_ctx_set_pdu_length :: "rle_ctx_management \<Rightarrow> nat \<Rightarrow> rle_ctx_management" where
  "rle_ctx_set_pdu_length c val = c\<lparr>pdu_length := of_nat val\<rparr>"

definition rle_ctx_set_remaining_pdu_length ::
  "rle_ctx_management \<Rightarrow> nat \<Rightarrow> rle_ctx_management" where
  "rle_ctx_set_remaining_pdu_length c val = c\<lparr>remaining_pdu_length := of_nat val\<rparr>"

definition rle_ctx_set_alpdu_length :: "rle_ctx_management \<Rightarrow> nat \<Rightarrow> rle_ctx_management" where
  "rle_ctx_set_alpdu_length c val = c\<lparr>alpdu_size := of_nat val\<rparr>"

definition rle_ctx_set_remaining_alpdu_length ::
  "rle_ctx_management \<Rightarrow> nat \<Rightarrow> rle_ctx_management" where
  "rle_ctx_set_remaining_alpdu_length c val = c\<lparr>remaining_alpdu_size := of_nat val\<rparr>"

definition rle_ctx_get_remaining_alpdu_length :: "rle_ctx_management \<Rightarrow> 32 word" where
  "rle_ctx_get_remaining_alpdu_length c = remaining_alpdu_size c"

definition rle_ctx_set_rle_length ::
  "rle_ctx_management \<Rightarrow> nat \<Rightarrow> nat \<Rightarrow> rle_ctx_management" where
  "rle_ctx_set_rle_length c val header_size = c\<lparr>rle_length := of_nat val\<rparr>"

definition rle_ctx_set_label_type :: "rle_ctx_management \<Rightarrow> 8 word \<Rightarrow> rle_ctx_management" where
  "rle_ctx_set_label_type c val = c\<lparr>label_type := val\<rparr>"

definition rle_ctx_set_qos_tag :: "rle_ctx_management \<Rightarrow> 32 word \<Rightarrow> rle_ctx_management" where
  "rle_ctx_set_qos_tag c val = c\<lparr>qos_tag := val\<rparr>"

text \<open>
  The first half of \<open>create_header\<close> (lines 41 to 81): the length of the protocol type
  field, the type indicator and the protocol type field written. The field is written
  only when the type is not omissible; otherwise the memory keeps what it held.
\<close>

definition create_header_ptype_length ::
  "header_defs \<Rightarrow> rle_configuration \<Rightarrow> 16 word \<Rightarrow> nat" where
  "create_header_ptype_length x rle_conf protocol_type =
     (if ptype_is_omissible x protocol_type rle_conf = 0
      then (if rle_conf_get_ptype_compression rle_conf \<noteq> 0
            then (if rle_header_ptype_is_compressible x protocol_type = C_OK
                  then RLE_PROTO_TYPE_FIELD_SIZE_COMP
                  else RLE_PROTO_TYPE_FIELD_SIZE_COMP + RLE_PROTO_TYPE_FIELD_SIZE_UNCOMP)
            else RLE_PROTO_TYPE_FIELD_SIZE_UNCOMP)
      else 0)"

definition create_header_proto_type_supp ::
  "header_defs \<Rightarrow> rle_configuration \<Rightarrow> 16 word \<Rightarrow> 8 word" where
  "create_header_proto_type_supp x rle_conf protocol_type =
     (if ptype_is_omissible x protocol_type rle_conf = 0
      then RLE_T_PROTO_TYPE_NO_SUPP x
      else RLE_T_PROTO_TYPE_SUPP x)"

definition create_header_ptype_field ::
  "header_defs \<Rightarrow> rle_configuration \<Rightarrow> 16 word \<Rightarrow> ptype_field \<Rightarrow> ptype_field" where
  "create_header_ptype_field x rle_conf protocol_type old =
     (if ptype_is_omissible x protocol_type rle_conf = 0
      then (if rle_conf_get_ptype_compression rle_conf \<noteq> 0
            then (if rle_header_ptype_is_compressible x protocol_type = C_OK
                  then Ptype_c (rle_header_ptype_compression x protocol_type)
                  else Ptype_e 0xFF protocol_type)
            else Ptype_u protocol_type)
      else old)"

text \<open>
  \<open>create_header\<close>. The context and the header memory at \<open>rle_ctx->buf\<close> are passed in
  and returned updated, after the return code. The source stores the protocol type in
  the context once more on the uncompressed path, with the same value; the model stores
  it once.
\<close>

definition create_header ::
  "header_defs \<Rightarrow> rle_ctx_management \<Rightarrow> zc_rle_header_complete_w_ptype \<Rightarrow> rle_configuration
     \<Rightarrow> ptr \<Rightarrow> nat \<Rightarrow> 16 word
     \<Rightarrow> int \<times> rle_ctx_management \<times> zc_rle_header_complete_w_ptype" where
  "create_header x rle_ctx rle_hdr rle_conf data_buffer data_length protocol_type =
     (let ptype_length = create_header_ptype_length x rle_conf protocol_type;
          proto_type_supp = create_header_proto_type_supp x rle_conf protocol_type;
          hdr1 = rle_hdr\<lparr>ptype_s :=
                   create_header_ptype_field x rle_conf protocol_type (ptype_s rle_hdr)\<rparr>;
          ctx1 = rle_ctx_set_proto_type rle_ctx protocol_type;
          size_header = RLE_COMPLETE_HEADER_SIZE + ptype_length;
          hdr2 = hdr1\<lparr>ptrs_start := NULL, ptrs_end := NULL\<rparr>;
          h1 = (head hdr2)\<lparr>start_ind := 1, end_ind := 1\<rparr>;
          h2 = rle_header_all_set_packet_length h1 data_length;
          h3 = h2\<lparr>LT_T_FID := SET_PROTO_TYPE_SUPP x (LT_T_FID h2) proto_type_supp\<rparr>;
          h4 = (if protocol_type = RLE_PROTO_TYPE_SIGNAL_UNCOMP
                then h3\<lparr>LT_T_FID := SET_LABEL_TYPE x (LT_T_FID h3) (RLE_LT_PROTO_SIGNAL x)\<rparr>
                else if proto_type_supp = RLE_T_PROTO_TYPE_SUPP x
                then h3\<lparr>LT_T_FID :=
                          SET_LABEL_TYPE x (LT_T_FID h3) (RLE_LT_IMPLICIT_PROTO_TYPE x)\<rparr>
                else h3\<lparr>LT_T_FID :=
                          SET_LABEL_TYPE x (LT_T_FID h3) (RLE_T_PROTO_TYPE_NO_SUPP x)\<rparr>);
          hdr3 = hdr2\<lparr>head := h4, ptrs_start := data_buffer,
                      ptrs_end := data_buffer + data_length\<rparr>;
          ctx2 = rle_ctx_set_end_address ctx1 (buf ctx1 + size_header);
          ctx3 = rle_ctx_set_is_fragmented ctx2 C_FALSE;
          ctx4 = rle_ctx_set_frag_counter ctx3 1;
          ctx5 = rle_ctx_set_nb_frag_pdu ctx4 1;
          ctx6 = rle_ctx_set_use_crc ctx5 C_FALSE;
          ctx7 = rle_ctx_set_pdu_length ctx6 data_length;
          ctx8 = rle_ctx_set_remaining_pdu_length ctx7 data_length;
          ctx9 = rle_ctx_set_alpdu_length ctx8 (data_length + ptype_length);
          ctx10 = rle_ctx_set_remaining_alpdu_length ctx9 (data_length + ptype_length);
          ctx11 = rle_ctx_set_rle_length ctx10 (data_length + ptype_length) ptype_length;
          label = GET_LABEL_TYPE x (LT_T_FID (head hdr3));
          ctx12 = rle_ctx_set_label_type ctx11 label;
          ctx13 = rle_ctx_set_qos_tag ctx12 0
      in (C_OK, ctx13, hdr3))"

subsection \<open>Encapsulating an SDU\<close>

definition encap_check_pdu_validity :: "nat \<Rightarrow> int" where
  "encap_check_pdu_validity pdu_len =
     (if pdu_len > RLE_MAX_PDU_SIZE then C_ERROR else C_OK)"

text \<open>
  \<open>encap_encapsulate_pdu\<close>: \<open>pdu_buffer\<close> is the address of the SDU and \<open>pdu_len\<close>
  (the source's \<open>pdu_length\<close>, a name the context already uses for a field) its
  length, a \<open>size_t\<close> that the \<open>uint64_t\<close> counters add modulo \<open>2 ^ 64\<close>. The header
  memory at \<open>rle_ctx->buf\<close> is passed in and returned as for \<open>create_header\<close>.
\<close>

definition encap_encapsulate_pdu ::
  "header_defs \<Rightarrow> rle_ctx_management \<Rightarrow> zc_rle_header_complete_w_ptype \<Rightarrow> rle_configuration
     \<Rightarrow> ptr \<Rightarrow> nat \<Rightarrow> 16 word
     \<Rightarrow> int \<times> rle_ctx_management \<times> zc_rle_header_complete_w_ptype" where
  "encap_encapsulate_pdu x rle_ctx rle_hdr rle_conf pdu_buffer pdu_len protocol_type =
     (let c1 = rle_ctx_incr_counter_in rle_ctx;
          c2 = rle_ctx_incr_counter_bytes_in c1 (of_nat pdu_len)
      in if encap_check_pdu_validity pdu_len = C_ERROR
         then (C_ERROR,
               rle_ctx_incr_counter_bytes_dropped (rle_ctx_incr_counter_dropped c2)
                 (of_nat pdu_len),
               rle_hdr)
         else (case create_header x c2 rle_hdr rle_conf pdu_buffer pdu_len protocol_type of
                 (ret, c3, hdr) \<Rightarrow>
                   if ret = C_ERROR
                   then (C_ERROR,
                         rle_ctx_incr_counter_bytes_dropped (rle_ctx_incr_counter_dropped c3)
                           (of_nat pdu_len),
                         hdr)
                   else (C_OK, c3\<lparr>pdu_buf := pdu_buffer\<rparr>, hdr)))"

section \<open>Receiver (rle_receiver.c)\<close>

text \<open>
  Modelled from the spec: \<open>struct rle_receiver\<close> is not among the sources (the header
  present declares an older receiver without configuration). Its fields are those
  \<open>rle_receiver_deencap_data\<close> uses: the array of 8 contexts, one configuration for each
  context and the \<open>uint8_t\<close> bitmap of the contexts in use.
\<close>

record rle_receiver =
  rle_ctx_man :: "rle_ctx_management list"
  rle_conf :: "rle_configuration list"
  free_ctx :: "8 word"

text \<open>
  The buffer handed to the receiver: its first two bytes read as \<open>union rle_header_all\<close>
  and the bytes that follow them.
\<close>

record rle_data_buffer =
  db_head :: rle_header_all
  db_bytes :: "8 word list"

text \<open>
  What the receiver calls and the sources do not hold is a parameter of the model:
  \<open>reassembly_reassemble_pdu\<close>, which returns its code and the context updated, and
  \<open>rle_ctx_invalid_ctx\<close> and \<open>rle_ctx_flush_buffer\<close>, which update a context.
\<close>

record receiver_defs =
  reassembly_reassemble_pdu ::
    "rle_ctx_management \<Rightarrow> rle_configuration \<Rightarrow> rle_data_buffer \<Rightarrow> nat \<Rightarrow> int
       \<Rightarrow> int \<times> rle_ctx_management"
  rle_ctx_invalid_ctx :: "rle_ctx_management \<Rightarrow> rle_ctx_management"
  rle_ctx_flush_buffer :: "rle_ctx_management \<Rightarrow> rle_ctx_management"

definition is_context_free :: "rle_receiver \<Rightarrow> nat \<Rightarrow> int" where
  "is_context_free r index =
     (if index \<ge> RLE_MAX_FRAG_NUMBER then C_FALSE
      else if drop_bit index (ucast (free_ctx r) :: 32 word) AND 1 = 0 then C_TRUE
      else C_FALSE)"

text \<open>The loop of \<open>get_first_free_frag_ctx\<close> over the indices still to visit.\<close>

fun first_free_frag_ctx_from :: "8 word \<Rightarrow> nat list \<Rightarrow> int" where
  "first_free_frag_ctx_from fc [] = C_ERROR"
| "first_free_frag_ctx_from fc (i # is) =
     (if drop_bit i (ucast fc :: 32 word) AND 1 = 0 then int i
      else first_free_frag_ctx_from fc is)"

definition get_first_free_frag_ctx :: "rle_receiver \<Rightarrow> int" where
  "get_first_free_frag_ctx r = first_free_frag_ctx_from (free_ctx r) [0..<RLE_MAX_FRAG_NUMBER]"

text \<open>
  The receiver's own bitmap functions take an \<open>int\<close> index; the receiver calls them with
  an index it has checked to lie between 0 and 7, here a natural number.
\<close>

definition set_nonfree_frag_ctx :: "rle_receiver \<Rightarrow> nat \<Rightarrow> rle_receiver" where
  "set_nonfree_frag_ctx r index =
     r\<lparr>free_ctx := ucast ((ucast (free_ctx r) :: 32 word) OR push_bit index 1)\<rparr>"

definition set_free_frag_ctx :: "rle_receiver \<Rightarrow> nat \<Rightarrow> rle_receiver" where
  "set_free_frag_ctx r index =
     r\<lparr>free_ctx := ucast ((ucast (free_ctx r) :: 32 word) AND NOT (push_bit index 1))\<rparr>"

definition get_recvd_fragment_type :: "rle_data_buffer \<Rightarrow> int" where
  "get_recvd_fragment_type data_buffer =
     (if start_ind (db_head data_buffer) = 0
      then (if end_ind (db_head data_buffer) = 0 then RLE_PDU_CONT_FRAG else RLE_PDU_END_FRAG)
      else if start_ind (db_head data_buffer) = 1
      then (if end_ind (db_head data_buffer) = 0 then RLE_PDU_START_FRAG else RLE_PDU_COMPLETE)
      else C_ERROR)"

definition get_fragment_id :: "rle_data_buffer \<Rightarrow> 16 word" where
  "get_fragment_id data_buffer = LT_T_FID (db_head data_buffer)"

definition rle_receiver_free_context ::
  "receiver_defs \<Rightarrow> rle_receiver \<Rightarrow> 8 word \<Rightarrow> rle_receiver" where
  "rle_receiver_free_context x r fragment_id =
     set_free_frag_ctx
       (r\<lparr>rle_ctx_man := (rle_ctx_man r)
            [unat fragment_id := rle_ctx_flush_buffer x (rle_ctx_man r ! unat fragment_id)]\<rparr>)
       (unat fragment_id)"

text \<open>
  The end of \<open>rle_receiver_deencap_data\<close> (lines 230 to 266), which every branch of the
  dispatch that does not return reaches with the index of the context chosen: the
  context is marked in use, the fragment is reassembled, and a result other than
  \<open>C_OK\<close> and \<open>C_REASSEMBLY_OK\<close> invalidates, flushes and frees the context. The triple
  is the return code, the receiver and the value left in \<open>*index_ctx\<close>.
\<close>

definition deencap_reassemble ::
  "receiver_defs \<Rightarrow> rle_receiver \<Rightarrow> rle_data_buffer \<Rightarrow> nat \<Rightarrow> int \<Rightarrow> int
     \<Rightarrow> int \<times> rle_receiver option \<times> int" where
  "deencap_reassemble x r data_buffer data_length frag_type index_ctx =
     (let i = nat index_ctx;
          r1 = set_nonfree_frag_ctx r i
      in case reassembly_reassemble_pdu x (rle_ctx_man r1 ! i) (rle_conf r1 ! i)
                data_buffer data_length frag_type of
           (ret, c) \<Rightarrow>
             (let r2 = r1\<lparr>rle_ctx_man := (rle_ctx_man r1)[i := c]\<rparr>
              in if ret \<noteq> C_OK \<and> ret \<noteq> C_REASSEMBLY_OK
                 then (ret,
                       Some (set_free_frag_ctx
                               (r2\<lparr>rle_ctx_man := (rle_ctx_man r2)
                                     [i := rle_ctx_flush_buffer x
                                             (rle_ctx_invalid_ctx x (rle_ctx_man r2 ! i))]\<rparr>)
                               i),
                       index_ctx)
                 else (ret, Some r2, index_ctx)))"

text \<open>The START branch on a context that is not free (lines 186 to 195).\<close>

definition deencap_start_not_free :: "receiver_defs \<Rightarrow> rle_receiver \<Rightarrow> nat \<Rightarrow> rle_receiver" where
  "deencap_start_not_free x r i =
     (let c1 = rle_ctx_incr_counter_dropped (rle_ctx_man r ! i);
          c2 = rle_ctx_incr_counter_bytes_dropped c1
                 (ucast (rle_ctx_get_remaining_alpdu_length c1))
      in rle_receiver_free_context x (r\<lparr>rle_ctx_man := (rle_ctx_man r)[i := c2]\<rparr>) (of_nat i))"

text \<open>The CONT and END branch on a context that is free (lines 209 to 223).\<close>

definition deencap_cont_end_free :: "receiver_defs \<Rightarrow> rle_receiver \<Rightarrow> nat \<Rightarrow> rle_receiver" where
  "deencap_cont_end_free x r i =
     (let c1 = rle_ctx_incr_counter_dropped (rle_ctx_man r ! i);
          c2 = rle_ctx_incr_counter_lost c1 1;
          c3 = rle_ctx_incr_counter_bytes_dropped c2
                 (ucast (rle_ctx_get_remaining_alpdu_length c2))
      in rle_receiver_free_context x (r\<lparr>rle_ctx_man := (rle_ctx_man r)[i := c3]\<rparr>) (of_nat i))"

text \<open>
  \<open>rle_receiver_deencap_data\<close>. \<open>None\<close> is a \<open>NULL\<close> receiver or buffer; \<open>index_ctx\<close> is
  the value \<open>*index_ctx\<close> holds at the call, which the early returns leave in place.
\<close>

definition rle_receiver_deencap_data ::
  "receiver_defs \<Rightarrow> rle_receiver option \<Rightarrow> rle_data_buffer option \<Rightarrow> nat \<Rightarrow> int
     \<Rightarrow> int \<times> rle_receiver option \<times> int" where
  "rle_receiver_deencap_data x this data_buffer data_length index_ctx =
     (case data_buffer of
        None \<Rightarrow> (C_ERROR, this, index_ctx)
      | Some db \<Rightarrow>
          (case this of
             None \<Rightarrow> (C_ERROR, this, index_ctx)
           | Some r \<Rightarrow>
               if data_length > RLE_MAX_PDU_SIZE then (C_ERROR, this, index_ctx)
               else
                 (let frag_type = get_recvd_fragment_type db
                  in if frag_type = RLE_PDU_COMPLETE
                     then (let idx = get_first_free_frag_ctx r
                           in if idx < 0 then (C_ERROR, this, idx)
                              else deencap_reassemble x r db data_length frag_type idx)
                     else if frag_type = RLE_PDU_START_FRAG
                     then (let idx = uint (get_fragment_id db)
                           in if idx < 0 \<or> idx > RLE_MAX_FRAG_ID then (C_ERROR, this, idx)
                              else if is_context_free r (nat idx) = C_FALSE
                              then deencap_reassemble x (deencap_start_not_free x r (nat idx))
                                     db data_length frag_type idx
                              else deencap_reassemble x r db data_length frag_type idx)
                     else if frag_type = RLE_PDU_CONT_FRAG \<or> frag_type = RLE_PDU_END_FRAG
                     then (let idx = uint (get_fragment_id db)
                           in if idx < 0 \<or> idx > RLE_MAX_FRAG_ID then (C_ERROR, this, idx)
                              else if is_context_free r (nat idx) = C_TRUE
                              then (C_ERROR, Some (deencap_cont_end_free x r (nat idx)), idx)
                              else deencap_reassemble x r db data_length frag_type idx)
                     else (C_ERROR, this, - 1))))"

section \<open>Initialisation of a context (rle_ctx.c)\<close>

text \<open>
  \<open>flush\<close> resets the fragment id, the sequence number, the CRC flag and, through
  \<open>rle_ctx_reset_counters\<close>, the seven counters.
\<close>

definition flush :: "rle_ctx_management \<Rightarrow> rle_ctx_management" where
  "flush c =
     c\<lparr>frag_id := 0xff, next_seq_nb := 0xff, use_crc := 0,
       lk_status := \<lparr>counter_in = 0, counter_ok = 0, counter_dropped = 0, counter_lost = 0,
                     counter_bytes_in = 0, counter_bytes_ok = 0, counter_bytes_dropped = 0\<rparr>\<rparr>"

text \<open>
  \<open>rle_ctx_init_frag_buf\<close>: \<open>new_buf\<close> is what \<open>rle_frag_buf_new\<close> returns. The
  fragmentation buffer itself lies outside the context, so \<open>flush_ctxt_frag_buf\<close>
  changes the context as \<open>flush\<close> does.
\<close>

definition rle_ctx_init_frag_buf :: "ptr \<Rightarrow> rle_ctx_management \<Rightarrow> int \<times> rle_ctx_management" where
  "rle_ctx_init_frag_buf new_buf c =
     (let c1 = c\<lparr>buff := new_buf\<rparr>
      in if buff c1 = NULL then (C_ERROR, c1) else (C_OK, flush c1))"

section \<open>Stand-ins for what the sources do not hold\<close>

text \<open>
  Modelled from the spec: \<open>ptype_is_omissible\<close> is not among the sources. By the spec
  a type is omissible when the configuration permits omission, the type equals the
  implicit protocol type of the link and the type is in the omissible set of the
  protocol type table, here the parameter \<open>omissible_set\<close>. The comment above the call
  in \<open>create_header\<close> names one more case, which the model keeps as the source states
  it: the field is not filled either when the type is that of a signalling packet.
\<close>

definition ptype_is_omissible_spec ::
  "16 word set \<Rightarrow> 16 word \<Rightarrow> rle_configuration \<Rightarrow> int" where
  "ptype_is_omissible_spec omissible_set protocol_type conf =
     (if protocol_type = RLE_PROTO_TYPE_SIGNAL_UNCOMP
         \<or> (ptype_suppression conf \<noteq> 0 \<and> protocol_type = default_ptype conf
            \<and> protocol_type \<in> omissible_set)
      then C_TRUE else C_FALSE)"

text \<open>
  Modelled from the spec: the protocol type table is not among the sources and the spec
  does not list its omissible set. Its third scenario elides IPv4 (0x0800), the one
  member given here.
\<close>

definition omissible_set_example :: "16 word set" where
  "omissible_set_example = {0x0800}"

text \<open>
  Modelled from the spec: the macros on \<open>LT_T_FID\<close> are not among the sources. In a
  COMPLETE header the field holds the label type on two bits above the type indicator on
  one bit; each macro writes or reads its bits and leaves the others.
\<close>

definition lt_t_fid_set_proto_type_supp :: "16 word \<Rightarrow> 8 word \<Rightarrow> 16 word" where
  "lt_t_fid_set_proto_type_supp y v = (y AND NOT (mask 1)) OR take_bit 1 (ucast v)"

definition lt_t_fid_set_label_type :: "16 word \<Rightarrow> 8 word \<Rightarrow> 16 word" where
  "lt_t_fid_set_label_type y v =
     (y AND NOT (push_bit 1 (mask 2))) OR push_bit 1 (take_bit 2 (ucast v))"

definition lt_t_fid_get_label_type :: "16 word \<Rightarrow> 8 word" where
  "lt_t_fid_get_label_type y = ucast (take_bit 2 (drop_bit 1 y))"

text \<open>
  Modelled from the spec: a protocol type table and header constants for the closed
  examples. No type is compressible; the type indicator is 0 when the field is present
  and 1 when it is suppressed; the spec names 0x02 for the label type \<open>PROTO_SIGNAL\<close>,
  and the implicit label type is a value distinct from the others.
\<close>

definition header_defs_example :: header_defs where
  "header_defs_example =
     \<lparr>ptype_is_omissible = ptype_is_omissible_spec omissible_set_example,
      rle_header_ptype_is_compressible = (\<lambda>protocol_type. C_ERROR),
      rle_header_ptype_compression = (\<lambda>protocol_type. 0xFF),
      RLE_T_PROTO_TYPE_NO_SUPP = 0,
      RLE_T_PROTO_TYPE_SUPP = 1,
      RLE_LT_IMPLICIT_PROTO_TYPE = 3,
      RLE_LT_PROTO_SIGNAL = 2,
      SET_PROTO_TYPE_SUPP = lt_t_fid_set_proto_type_supp,
      SET_LABEL_TYPE = lt_t_fid_set_label_type,
      GET_LABEL_TYPE = lt_t_fid_get_label_type\<rparr>"

text \<open>
  Modelled from the spec: \<open>rle_ctx_flush_buffer\<close> is not among the sources. Releasing a
  context returns it to the state with no ALPDU in flight and keeps the link-status
  counters, which the spec accumulates over successive SDUs.
\<close>

definition rle_ctx_flush_buffer_spec :: "rle_ctx_management \<Rightarrow> rle_ctx_management" where
  "rle_ctx_flush_buffer_spec c =
     c\<lparr>is_fragmented := C_FALSE, frag_counter := 0, nb_frag_pdu := 0, use_crc := C_FALSE,
       pdu_length := 0, remaining_pdu_length := 0, rle_length := 0, alpdu_size := 0,
       remaining_alpdu_size := 0\<rparr>"

text \<open>
  Modelled from the spec: \<open>reassembly_reassemble_pdu\<close> and \<open>rle_ctx_invalid_ctx\<close> are
  not among the sources. For the closed examples reassembly refuses a buffer shorter
  than the two bytes of a header and leaves the context as it is; it accepts every other
  fragment, records its length and reports a whole SDU on COMPLETE and END.
  Invalidating a context changes nothing in it.
\<close>

definition reassembly_example ::
  "rle_ctx_management \<Rightarrow> rle_configuration \<Rightarrow> rle_data_buffer \<Rightarrow> nat \<Rightarrow> int
     \<Rightarrow> int \<times> rle_ctx_management" where
  "reassembly_example c conf db len frag_type =
     (if len < 2 then (C_ERROR, c)
      else if frag_type = RLE_PDU_COMPLETE \<or> frag_type = RLE_PDU_END_FRAG
      then (C_REASSEMBLY_OK, c\<lparr>rle_length := of_nat len\<rparr>)
      else (C_OK, c\<lparr>rle_length := of_nat len\<rparr>))"

definition receiver_defs_example :: receiver_defs where
  "receiver_defs_example =
     \<lparr>reassembly_reassemble_pdu = reassembly_example,
      rle_ctx_invalid_ctx = (\<lambda>c. c),
      rle_ctx_flush_buffer = rle_ctx_flush_buffer_spec\<rparr>"

section \<open>Concrete inputs\<close>

text \<open>
  A context whose header buffer lies at address 8192 and whose other fields are zero, a
  configuration with every option off, and the memory of that header buffer, zeroed.
\<close>

definition ctx_blank :: rle_ctx_management where
  "ctx_blank =
     \<lparr>frag_id = 0, next_seq_nb = 0, is_fragmented = 0, frag_counter = 0, nb_frag_pdu = 0,
      qos_tag = 0, use_crc = 0, buff = 0, pdu_length = 0, remaining_pdu_length = 0,
      rle_length = 0, alpdu_size = 0, remaining_alpdu_size = 0, proto_type = 0,
      label_type = 0, pdu_buf = 0, buf = 8192, end_address = 0, current_counter = 0,
      lk_type = 0,
      lk_status = \<lparr>counter_in = 0, counter_ok = 0, counter_dropped = 0, counter_lost = 0,
                    counter_bytes_in = 0, counter_bytes_ok = 0, counter_bytes_dropped = 0\<rparr>\<rparr>"

definition conf_blank :: rle_configuration where
  "conf_blank = \<lparr>default_ptype = 0, crc_check = 0, ptype_compression = 0, ptype_suppression = 0\<rparr>"

definition hdr_blank :: zc_rle_header_complete_w_ptype where
  "hdr_blank =
     \<lparr>ptrs_start = 0, ptrs_end = 0,
      head = \<lparr>start_ind = 0, end_ind = 0, rle_packet_length = 0, LT_T_FID = 0\<rparr>,
      ptype_s = Ptype_u 0\<rparr>"

text \<open>A transmitter and a receiver with blank contexts and a given bitmap.\<close>

definition tx_example :: "8 word \<Rightarrow> rle_transmitter" where
  "tx_example fc =
     \<lparr>tx_rle_ctx_man = replicate 8 ctx_blank, tx_rle_conf = conf_blank, tx_free_ctx = fc\<rparr>"

definition rx_example :: "8 word \<Rightarrow> rle_receiver" where
  "rx_example fc =
     \<lparr>rle_ctx_man = replicate 8 ctx_blank, rle_conf = replicate 8 conf_blank, free_ctx = fc\<rparr>"

text \<open>
  A receiver whose context 2 is in use, 40 bytes short of an ALPDU of 100 bytes, the
  other contexts being blank and free.
\<close>

definition rx_busy_example :: rle_receiver where
  "rx_busy_example =
     \<lparr>rle_ctx_man =
        (replicate 8 ctx_blank)[2 := ctx_blank\<lparr>alpdu_size := 100, remaining_alpdu_size := 40\<rparr>],
      rle_conf = replicate 8 conf_blank, free_ctx = 4\<rparr>"

text \<open>A received buffer with given start and end indicators and \<open>LT_T_FID\<close>.\<close>

definition db_example :: "1 word \<Rightarrow> 1 word \<Rightarrow> 16 word \<Rightarrow> rle_data_buffer" where
  "db_example s e fid =
     \<lparr>db_head = \<lparr>start_ind = s, end_ind = e, rle_packet_length = 0, LT_T_FID = fid\<rparr>,
      db_bytes = []\<rparr>"

text \<open>
  The configuration of the spec's first scenario (CRC mode, implicit type 0, no
  compression, no omission), the transmitter \<open>rle_transmitter_new\<close> builds from it, and
  the configuration it holds. \<open>rle_ctx_init_frag_buf\<close> of rle_ctx.c, with a buffer
  allocated at address 4096, stands for \<open>rle_ctx_init_f_buff\<close>.
\<close>

definition init_f_buff_example :: "rle_ctx_management \<Rightarrow> rle_ctx_management" where
  "init_f_buff_example c = snd (rle_ctx_init_frag_buf 4096 c)"

definition cfg_crc_example :: rle_context_configuration where
  "cfg_crc_example =
     \<lparr>implicit_protocol_type = 0, use_alpdu_crc = 1, use_compressed_ptype = 0,
      use_ptype_omission = 0\<rparr>"



text \<open>A configuration with the reserved implicit protocol type.\<close>

definition cfg_reserved_example :: rle_context_configuration where
  "cfg_reserved_example =
     \<lparr>implicit_protocol_type = 0x31, use_alpdu_crc = 0, use_compressed_ptype = 0,
      use_ptype_omission = 0\<rparr>"

section \<open>Auxiliary facts\<close>

lemmas ctx_setters =
  rle_ctx_set_proto_type_def rle_ctx_set_end_address_def rle_ctx_set_is_fragmented_def
  rle_ctx_set_frag_counter_def rle_ctx_set_nb_frag_pdu_def rle_ctx_set_use_crc_def
  rle_ctx_set_pdu_length_def rle_ctx_set_remaining_pdu_length_def rle_ctx_set_alpdu_length_def
  rle_ctx_set_remaining_alpdu_length_def rle_ctx_set_rle_length_def rle_ctx_set_label_type_def
  rle_ctx_set_qos_tag_def

lemmas ctx_counters =
  rle_ctx_incr_counter_in_def rle_ctx_incr_counter_bytes_in_def
  rle_ctx_incr_counter_dropped_def rle_ctx_incr_counter_bytes_dropped_def
  rle_ctx_incr_counter_lost_def

lemmas const_defs =
  C_TRUE_def C_FALSE_def C_OK_def C_ERROR_def C_REASSEMBLY_OK_def RLE_PDU_COMPLETE_def
  RLE_PDU_START_FRAG_def RLE_PDU_CONT_FRAG_def RLE_PDU_END_FRAG_def RLE_MAX_PDU_SIZE_def
  RLE_MAX_FRAG_NUMBER_def RLE_MAX_FRAG_ID_def

lemma upt8: "[0..<8] = [0, 1, 2, 3, 4, 5, 6, 7 :: nat]"
  by (simp add: upt_rec)

lemma replicate8: "replicate 8 c = [c, c, c, c, c, c, c, c]"
  by (simp add: eval_nat_numeral)

lemma and1_cases: "(x :: 32 word) AND 1 = 0 \<longleftrightarrow> \<not> (x AND 1 = 1)"
  by (cases "odd x") (simp_all add: and_one_eq mod_2_eq_odd)

lemma test_bit_iff:
  "(drop_bit n (ucast (w :: 8 word) :: 32 word) AND 1 = 0) = (\<not> bit w n)"
proof -
  have "(drop_bit n (ucast w :: 32 word) AND 1 = 0) = (\<not> bit (ucast w :: 32 word) n)"
    unfolding bit_word_iff_drop_bit_and by (rule and1_cases)
  also have "\<dots> = (\<not> bit w n)"
    by (auto simp add: bit_ucast_iff dest: bit_imp_le_length)
  finally show ?thesis .
qed

lemma bit_rle_ctx_set_free: "bit (rle_ctx_set_free w n) m = (bit w m \<and> m \<noteq> n)"
  unfolding rle_ctx_set_free_def by (auto simp add: bit_simps dest: bit_imp_le_length)

lemma bit_rle_ctx_set_nonfree:
  "bit (rle_ctx_set_nonfree w n) m = (bit w m \<or> (m = n \<and> n < 8))"
  unfolding rle_ctx_set_nonfree_def by (auto simp add: bit_simps dest: bit_imp_le_length)

lemma rle_ctx_is_free_iff: "rle_ctx_is_free w n = (if bit w n then C_FALSE else C_TRUE)"
  by (simp add: rle_ctx_is_free_def test_bit_iff)

lemma is_context_free_iff:
  "is_context_free r i =
     (if i < RLE_MAX_FRAG_NUMBER \<and> \<not> bit (free_ctx r) i then C_TRUE else C_FALSE)"
  by (simp add: is_context_free_def test_bit_iff)

lemma free_ctx_set_free_frag_ctx:
  "free_ctx (set_free_frag_ctx r i) = rle_ctx_set_free (free_ctx r) i"
  by (simp add: set_free_frag_ctx_def rle_ctx_set_free_def)

lemma free_ctx_set_nonfree_frag_ctx:
  "free_ctx (set_nonfree_frag_ctx r i) = rle_ctx_set_nonfree (free_ctx r) i"
  by (simp add: set_nonfree_frag_ctx_def rle_ctx_set_nonfree_def)

lemma rle_ctx_man_set_free_frag_ctx [simp]:
  "rle_ctx_man (set_free_frag_ctx r i) = rle_ctx_man r"
  "rle_conf (set_free_frag_ctx r i) = rle_conf r"
  by (simp_all add: set_free_frag_ctx_def)

lemma rle_ctx_man_set_nonfree_frag_ctx [simp]:
  "rle_ctx_man (set_nonfree_frag_ctx r i) = rle_ctx_man r"
  "rle_conf (set_nonfree_frag_ctx r i) = rle_conf r"
  by (simp_all add: set_nonfree_frag_ctx_def)

lemma fid_bound: "uint (w :: 16 word) \<le> 7 \<Longrightarrow> unat w < 8"
  using unat_eq_nat_uint [of w] by linarith

lemma unat_of_nat_fid: "i < 8 \<Longrightarrow> unat (of_nat i :: 8 word) = i"
  by (simp add: unat_of_nat)

lemma first_free_find:
  "first_free_frag_ctx_from fc is =
     (case List.find (\<lambda>i. \<not> bit fc i) is of None \<Rightarrow> C_ERROR | Some i \<Rightarrow> int i)"
  by (induction "is") (simp_all add: test_bit_iff)

lemma all_bits_iff: "(\<forall>i<8. bit (w :: 8 word) i) = (w = 0xFF)"
proof
  assume a: "\<forall>i<8. bit w i"
  show "w = 0xFF"
  proof (rule bit_eqI)
    fix n assume "possible_bit TYPE(8 word) n"
    then have n: "n < 8" by (simp add: possible_bit_def)
    have "(0xFF :: 8 word) = - 1" by simp
    with a n show "bit w n = bit (0xFF :: 8 word) n" by (simp only: bit_minus_1_iff) simp
  qed
next
  assume "w = 0xFF"
  then have "w = - 1" by simp
  then show "\<forall>i<8. bit w i" by (simp only: bit_minus_1_iff) simp
qed

lemma get_first_free_none:
  "free_ctx r = 0xFF \<Longrightarrow> get_first_free_frag_ctx r = C_ERROR"
proof -
  assume "free_ctx r = 0xFF"
  then have "\<forall>i<8. bit (free_ctx r) i" by (simp only: all_bits_iff [symmetric])
  then have "List.find (\<lambda>i. \<not> bit (free_ctx r) i) [0..<8] = None"
    by (simp add: find_None_iff)
  then show ?thesis
    by (simp add: get_first_free_frag_ctx_def RLE_MAX_FRAG_NUMBER_def first_free_find)
qed

lemma get_first_free_some:
  assumes "free_ctx r \<noteq> 0xFF"
  shows "\<exists>i<8. \<not> bit (free_ctx r) i \<and> (\<forall>j<i. bit (free_ctx r) j)
           \<and> get_first_free_frag_ctx r = int i"
proof -
  from assms obtain k where k: "k < 8" "\<not> bit (free_ctx r) k"
    using all_bits_iff [of "free_ctx r"] by auto
  then have "List.find (\<lambda>i. \<not> bit (free_ctx r) i) [0..<8] \<noteq> None"
    by (auto simp add: find_None_iff)
  then obtain i where i: "List.find (\<lambda>i. \<not> bit (free_ctx r) i) [0..<8] = Some i" by auto
  then obtain n where n: "n < 8" "\<not> bit (free_ctx r) ([0..<8] ! n)" "i = [0..<8] ! n"
      "\<forall>j<n. bit (free_ctx r) ([0..<8] ! j)"
    unfolding find_Some_iff by auto
  from n have "i = n" by simp
  with n have "i < 8" "\<not> bit (free_ctx r) i" "\<forall>j<i. bit (free_ctx r) j"
    by auto
  moreover from i have "get_first_free_frag_ctx r = int i"
    by (simp add: get_first_free_frag_ctx_def RLE_MAX_FRAG_NUMBER_def first_free_find)
  ultimately show ?thesis by blast
qed

lemma all_busy_iff:
  "(\<forall>i<RLE_MAX_FRAG_NUMBER. is_context_free r i = C_FALSE) = (free_ctx r = 0xFF)"
proof -
  have "C_TRUE \<noteq> C_FALSE" by (simp add: C_TRUE_def C_FALSE_def)
  then have "(\<forall>i<RLE_MAX_FRAG_NUMBER. is_context_free r i = C_FALSE)
               = (\<forall>i<8. bit (free_ctx r) i)"
    by (auto simp add: is_context_free_iff RLE_MAX_FRAG_NUMBER_def)
  then show ?thesis by (simp only: all_bits_iff)
qed

lemma free_context_ctx:
  assumes "i < 8" "length (rle_ctx_man r) = 8"
  shows "rle_ctx_man (rle_receiver_free_context x r (of_nat i)) ! i
           = rle_ctx_flush_buffer x (rle_ctx_man r ! i)"
    and "j \<noteq> i \<Longrightarrow> rle_ctx_man (rle_receiver_free_context x r (of_nat i)) ! j = rle_ctx_man r ! j"
    and "rle_conf (rle_receiver_free_context x r (of_nat i)) = rle_conf r"
    and "free_ctx (rle_receiver_free_context x r (of_nat i)) = rle_ctx_set_free (free_ctx r) i"
    and "length (rle_ctx_man (rle_receiver_free_context x r (of_nat i))) = 8"
  using assms
  by (simp_all add: rle_receiver_free_context_def unat_of_nat_fid free_ctx_set_free_frag_ctx)

lemma cont_end_free_props:
  assumes "i < 8" "length (rle_ctx_man r) = 8"
  shows "lk_status (rle_ctx_man (deencap_cont_end_free x r i) ! i)
           = lk_status (rle_ctx_flush_buffer x
               (rle_ctx_incr_counter_bytes_dropped
                  (rle_ctx_incr_counter_lost
                     (rle_ctx_incr_counter_dropped (rle_ctx_man r ! i)) 1)
                  (ucast (remaining_alpdu_size (rle_ctx_man r ! i)))))"
    and "free_ctx (deencap_cont_end_free x r i) = rle_ctx_set_free (free_ctx r) i"
    and "rle_conf (deencap_cont_end_free x r i) = rle_conf r"
  using assms
  by (simp_all add: deencap_cont_end_free_def Let_def free_context_ctx
      rle_ctx_get_remaining_alpdu_length_def ctx_counters)

lemma start_not_free_props:
  assumes "i < 8" "length (rle_ctx_man r) = 8"
  shows "lk_status (rle_ctx_man (deencap_start_not_free x r i) ! i)
           = lk_status (rle_ctx_flush_buffer x
               (rle_ctx_incr_counter_bytes_dropped
                  (rle_ctx_incr_counter_dropped (rle_ctx_man r ! i))
                  (ucast (remaining_alpdu_size (rle_ctx_man r ! i)))))"
    and "free_ctx (deencap_start_not_free x r i) = rle_ctx_set_free (free_ctx r) i"
    and "rle_conf (deencap_start_not_free x r i) = rle_conf r"
  using assms
  by (simp_all add: deencap_start_not_free_def Let_def free_context_ctx
      rle_ctx_get_remaining_alpdu_length_def ctx_counters)

lemma deencap_reassemble_index:
  "snd (snd (deencap_reassemble x r db len ft idx)) = idx"
  by (simp add: deencap_reassemble_def Let_def split: prod.splits)

lemma deencap_reassemble_code:
  "fst (deencap_reassemble x r db len ft idx)
     = fst (reassembly_reassemble_pdu x (rle_ctx_man r ! nat idx) (rle_conf r ! nat idx)
              db len ft)"
  by (simp add: deencap_reassemble_def Let_def split: prod.splits)

lemma create_header_ret: "fst (create_header x c h conf b len pt) = C_OK"
  by (simp add: create_header_def Let_def)

lemma create_header_lk_status:
  "lk_status (fst (snd (create_header x c h conf b len pt))) = lk_status c"
  by (simp add: create_header_def Let_def ctx_setters)







lemma encap_ok:
  assumes "len \<le> RLE_MAX_PDU_SIZE"
  shows "encap_encapsulate_pdu x c h conf b len pt =
     (C_OK,
      (fst (snd (create_header x
         (rle_ctx_incr_counter_bytes_in (rle_ctx_incr_counter_in c) (of_nat len))
         h conf b len pt)))\<lparr>pdu_buf := b\<rparr>,
      snd (snd (create_header x
         (rle_ctx_incr_counter_bytes_in (rle_ctx_incr_counter_in c) (of_nat len))
         h conf b len pt)))"
proof -
  let ?c2 = "rle_ctx_incr_counter_bytes_in (rle_ctx_incr_counter_in c) (of_nat len)"
  obtain ret c3 hdr where ch: "create_header x ?c2 h conf b len pt = (ret, c3, hdr)"
    by (cases "create_header x ?c2 h conf b len pt") auto
  with create_header_ret [of x ?c2 h conf b len pt] have "ret = C_OK" by simp
  with ch assms show ?thesis
    by (simp add: encap_encapsulate_pdu_def encap_check_pdu_validity_def Let_def C_ERROR_def
        C_OK_def)
qed

lemma encap_ko:
  assumes "len > RLE_MAX_PDU_SIZE"
  shows "encap_encapsulate_pdu x c h conf b len pt =
     (C_ERROR,
      rle_ctx_incr_counter_bytes_dropped
        (rle_ctx_incr_counter_dropped
           (rle_ctx_incr_counter_bytes_in (rle_ctx_incr_counter_in c) (of_nat len)))
        (of_nat len),
      h)"
  using assms
  by (simp add: encap_encapsulate_pdu_def encap_check_pdu_validity_def Let_def)




lemma set_free_frag_ctx_eq:
  "set_free_frag_ctx r i = r\<lparr>free_ctx := rle_ctx_set_free (free_ctx r) i\<rparr>"
  by (simp add: set_free_frag_ctx_def rle_ctx_set_free_def)

lemma set_nonfree_frag_ctx_eq:
  "set_nonfree_frag_ctx r i = r\<lparr>free_ctx := rle_ctx_set_nonfree (free_ctx r) i\<rparr>"
  by (simp add: set_nonfree_frag_ctx_def rle_ctx_set_nonfree_def)

lemma set_free_set_nonfree:
  "rle_ctx_set_free (rle_ctx_set_nonfree fc i) i = rle_ctx_set_free fc i"
  by (rule bit_eqI) (auto simp add: bit_rle_ctx_set_free bit_rle_ctx_set_nonfree)

lemma set_free_of_free: "\<not> bit fc i \<Longrightarrow> rle_ctx_set_free fc i = fc"
  by (rule bit_eqI) (auto simp add: bit_rle_ctx_set_free)

lemma set_nonfree_set_free:
  "bit fc i \<Longrightarrow> rle_ctx_set_nonfree (rle_ctx_set_free fc i) i = fc"
  by (rule bit_eqI)
    (auto simp add: bit_rle_ctx_set_free bit_rle_ctx_set_nonfree dest: bit_imp_le_length)

lemma deencap_reassemble_eq:
  assumes "i < length (rle_ctx_man r)"
  shows "deencap_reassemble x r db len ft (int i) =
    (let res = reassembly_reassemble_pdu x (rle_ctx_man r ! i) (rle_conf r ! i) db len ft
     in if fst res \<noteq> C_OK \<and> fst res \<noteq> C_REASSEMBLY_OK
        then (fst res,
              Some (r\<lparr>rle_ctx_man := (rle_ctx_man r)
                        [i := rle_ctx_flush_buffer x (rle_ctx_invalid_ctx x (snd res))],
                      free_ctx := rle_ctx_set_free (free_ctx r) i\<rparr>),
              int i)
        else (fst res,
              Some (r\<lparr>rle_ctx_man := (rle_ctx_man r)[i := snd res],
                      free_ctx := rle_ctx_set_nonfree (free_ctx r) i\<rparr>),
              int i))"
  using assms
  by (simp add: deencap_reassemble_def Let_def set_free_frag_ctx_eq set_nonfree_frag_ctx_eq
      set_free_set_nonfree split: prod.splits)

lemma start_not_free_eq:
  assumes "i < 8" "length (rle_ctx_man r) = 8"
  shows "deencap_start_not_free x r i =
    r\<lparr>rle_ctx_man := (rle_ctx_man r)
          [i := rle_ctx_flush_buffer x
                  (rle_ctx_incr_counter_bytes_dropped
                     (rle_ctx_incr_counter_dropped (rle_ctx_man r ! i))
                     (ucast (remaining_alpdu_size (rle_ctx_man r ! i))))],
      free_ctx := rle_ctx_set_free (free_ctx r) i\<rparr>"
  using assms
  by (simp add: deencap_start_not_free_def Let_def rle_receiver_free_context_def
      unat_of_nat_fid set_free_frag_ctx_eq rle_ctx_get_remaining_alpdu_length_def
      ctx_counters)

section \<open>The claims\<close>

subsection \<open>C1: releasing a transmitter context\<close>

text \<open>
  C1, as amended. For every fragment id below 8, \<open>rle_transmitter_free_context\<close> makes
  the context free, leaves the free state of every other context as it was, and leaves
  the contexts and the configuration untouched: no counter changes, the dropped
  counter included.
\<close>

theorem C1_free_context:
  assumes "unat fid < RLE_MAX_FRAG_NUMBER"
  shows "rle_ctx_is_free (tx_free_ctx (rle_transmitter_free_context t fid)) (unat fid) = C_TRUE
   \<and> tx_rle_ctx_man (rle_transmitter_free_context t fid) = tx_rle_ctx_man t
   \<and> tx_rle_conf (rle_transmitter_free_context t fid) = tx_rle_conf t
   \<and> (\<forall>j<RLE_MAX_FRAG_NUMBER. j \<noteq> unat fid \<longrightarrow>
         rle_ctx_is_free (tx_free_ctx (rle_transmitter_free_context t fid)) j
           = rle_ctx_is_free (tx_free_ctx t) j)"
  by (simp add: rle_ctx_is_free_iff rle_transmitter_free_context_def tx_set_free_frag_ctx_def
      bit_rle_ctx_set_free)

text \<open>
  Witness of C1: context 0 of a transmitter whose bitmap is 1 is in use; after the
  release it is free and the contexts are the same.
\<close>

theorem C1_free_context_witness:
  "unat (0 :: 8 word) < RLE_MAX_FRAG_NUMBER
   \<and> rle_ctx_is_free (tx_free_ctx (tx_example 1)) 0 = C_FALSE
   \<and> rle_ctx_is_free (tx_free_ctx (rle_transmitter_free_context (tx_example 1) 0)) 0 = C_TRUE
   \<and> tx_rle_ctx_man (rle_transmitter_free_context (tx_example 1) 0)
       = tx_rle_ctx_man (tx_example 1)"
proof -
  have h: "unat (0 :: 8 word) < RLE_MAX_FRAG_NUMBER"
    by (simp add: RLE_MAX_FRAG_NUMBER_def)
  have "rle_ctx_is_free (tx_free_ctx (tx_example 1)) 0 = C_FALSE"
    by (simp add: rle_ctx_is_free_def tx_example_def C_FALSE_def C_TRUE_def)
  with h C1_free_context [OF h, of "tx_example 1"] show ?thesis by simp
qed

text \<open>
  Counterexample to C1 as stated: context 0 is in use, and after the release its dropped
  counter is not one more than before.
\<close>

theorem C1_counterexample:
  "rle_ctx_is_free (tx_free_ctx (tx_example 1)) 0 = C_FALSE
   \<and> rle_ctx_get_counter_dropped (tx_rle_ctx_man (rle_transmitter_free_context (tx_example 1) 0) ! 0)
       \<noteq> rle_ctx_get_counter_dropped (tx_rle_ctx_man (tx_example 1) ! 0) + 1"
  by (simp add: rle_ctx_is_free_def tx_example_def rle_transmitter_free_context_def
      tx_set_free_frag_ctx_def rle_ctx_get_counter_dropped_def ctx_blank_def C_FALSE_def C_TRUE_def)

subsection \<open>C2: the CRC flag of the context after encapsulation\<close>




subsection \<open>C3: CONT or END on a free context\<close>

text \<open>
  C3. For every CONT or END PPDU that passes the size check and names a fragment id up
  to 7 whose context is free, \<open>rle_receiver_deencap_data\<close> returns \<open>C_ERROR\<close>, the lost
  counter of that context is one more than before, and the context is free afterwards.
  \<open>rle_ctx_flush_buffer\<close> is a parameter, taken to leave the counters as they are.
\<close>

theorem C3_orphan_fragment:
  assumes len: "data_length \<le> RLE_MAX_PDU_SIZE"
    and ctxs: "length (rle_ctx_man r) = RLE_MAX_FRAG_NUMBER"
    and ft: "get_recvd_fragment_type db = RLE_PDU_CONT_FRAG
             \<or> get_recvd_fragment_type db = RLE_PDU_END_FRAG"
    and fid: "uint (get_fragment_id db) \<le> RLE_MAX_FRAG_ID"
    and free: "is_context_free r (unat (get_fragment_id db)) = C_TRUE"
    and flush_keeps: "\<forall>c. lk_status (rle_ctx_flush_buffer x c) = lk_status c"
  shows "\<exists>r'. rle_receiver_deencap_data x (Some r) (Some db) data_length index_ctx
                 = (C_ERROR, Some r', uint (get_fragment_id db))
          \<and> rle_ctx_get_counter_lost (rle_ctx_man r' ! unat (get_fragment_id db))
              = rle_ctx_get_counter_lost (rle_ctx_man r ! unat (get_fragment_id db)) + 1
          \<and> is_context_free r' (unat (get_fragment_id db)) = C_TRUE"
proof -
  let ?i = "unat (get_fragment_id db)"
  let ?r' = "deencap_cont_end_free x r ?i"
  have nat: "nat (uint (get_fragment_id db)) = ?i" by simp
  from fid have i: "?i < 8"
    unfolding RLE_MAX_FRAG_ID_def by (rule fid_bound)
  from ctxs have l8: "length (rle_ctx_man r) = 8" by (simp add: RLE_MAX_FRAG_NUMBER_def)
  from ft have nc: "get_recvd_fragment_type db \<noteq> RLE_PDU_COMPLETE"
      "get_recvd_fragment_type db \<noteq> RLE_PDU_START_FRAG"
    by (auto simp add: RLE_PDU_COMPLETE_def RLE_PDU_START_FRAG_def RLE_PDU_CONT_FRAG_def
        RLE_PDU_END_FRAG_def)
  have res: "rle_receiver_deencap_data x (Some r) (Some db) data_length index_ctx
               = (C_ERROR, Some ?r', uint (get_fragment_id db))"
    using len ft nc fid free
    by (auto simp add: rle_receiver_deencap_data_def Let_def nat)
  have lost: "rle_ctx_get_counter_lost (rle_ctx_man ?r' ! ?i)
                = rle_ctx_get_counter_lost (rle_ctx_man r ! ?i) + 1"
    using flush_keeps
    by (simp add: rle_ctx_get_counter_lost_def cont_end_free_props(1) [OF i l8] ctx_counters)
  from i have "is_context_free ?r' ?i = C_TRUE"
    by (simp add: is_context_free_iff cont_end_free_props(2) [OF i l8] bit_rle_ctx_set_free
        RLE_MAX_FRAG_NUMBER_def)
  with res lost show ?thesis by blast
qed

text \<open>Witness of C3: a CONT PPDU for fragment id 3 on a receiver with every context free.\<close>

theorem C3_orphan_fragment_witness:
  "(10 :: nat) \<le> RLE_MAX_PDU_SIZE
   \<and> length (rle_ctx_man (rx_example 0)) = RLE_MAX_FRAG_NUMBER
   \<and> get_recvd_fragment_type (db_example 0 0 3) = RLE_PDU_CONT_FRAG
   \<and> uint (get_fragment_id (db_example 0 0 3)) \<le> RLE_MAX_FRAG_ID
   \<and> is_context_free (rx_example 0) (unat (get_fragment_id (db_example 0 0 3))) = C_TRUE
   \<and> (\<forall>c. lk_status (rle_ctx_flush_buffer receiver_defs_example c) = lk_status c)
   \<and> (\<exists>r'. rle_receiver_deencap_data receiver_defs_example (Some (rx_example 0))
               (Some (db_example 0 0 3)) 10 0 = (C_ERROR, Some r', 3)
            \<and> rle_ctx_get_counter_lost (rle_ctx_man r' ! 3) = 1
            \<and> is_context_free r' 3 = C_TRUE)"
proof -
  have h1: "(10 :: nat) \<le> RLE_MAX_PDU_SIZE" by (simp add: RLE_MAX_PDU_SIZE_def)
  have h2: "length (rle_ctx_man (rx_example 0)) = RLE_MAX_FRAG_NUMBER"
    by (simp add: rx_example_def RLE_MAX_FRAG_NUMBER_def)
  have h3: "get_recvd_fragment_type (db_example 0 0 3) = RLE_PDU_CONT_FRAG"
    by (simp add: get_recvd_fragment_type_def db_example_def)
  have id: "get_fragment_id (db_example 0 0 3) = 3"
    by (simp add: get_fragment_id_def db_example_def)
  have h4: "uint (get_fragment_id (db_example 0 0 3)) \<le> RLE_MAX_FRAG_ID"
    by (simp add: id RLE_MAX_FRAG_ID_def)
  have h5: "is_context_free (rx_example 0) (unat (get_fragment_id (db_example 0 0 3))) = C_TRUE"
    by (simp add: id is_context_free_iff rx_example_def RLE_MAX_FRAG_NUMBER_def)
  have h6: "\<forall>c. lk_status (rle_ctx_flush_buffer receiver_defs_example c) = lk_status c"
    by (simp add: receiver_defs_example_def rle_ctx_flush_buffer_spec_def)
  have lost0: "rle_ctx_get_counter_lost (rle_ctx_man (rx_example 0) ! 3) = 0"
    by (simp add: rx_example_def replicate8 ctx_blank_def rle_ctx_get_counter_lost_def)
  from h3 have h3': "get_recvd_fragment_type (db_example 0 0 3) = RLE_PDU_CONT_FRAG
      \<or> get_recvd_fragment_type (db_example 0 0 3) = RLE_PDU_END_FRAG" by simp
  from C3_orphan_fragment [OF h1 h2 h3' h4 h5 h6, of 0] lost0
  have "\<exists>r'. rle_receiver_deencap_data receiver_defs_example (Some (rx_example 0))
               (Some (db_example 0 0 3)) 10 0 = (C_ERROR, Some r', 3)
            \<and> rle_ctx_get_counter_lost (rle_ctx_man r' ! 3) = 1
            \<and> is_context_free r' 3 = C_TRUE"
    by (simp add: id)
  with h1 h2 h3 h4 h5 h6 show ?thesis by blast
qed

subsection \<open>C4: START on a context in use\<close>

text \<open>
  C4. For every START PPDU that passes the size check and names a fragment id up to 7
  whose context is in use, \<open>rle_receiver_deencap_data\<close> counts one dropped SDU on that
  context (and its remaining ALPDU bytes as dropped bytes), flushes the context and
  clears its bit, and then goes on as for a START on the context so released: the new
  fragment is reassembled in the flushed context and the call returns the code of that
  reassembly. When reassembly accepts the fragment the call leaves the context in use,
  holding what reassembly stored; when it refuses, the context is invalidated, flushed
  and left free. \<open>rle_ctx_flush_buffer\<close> is a parameter, taken to leave the counters as
  they are.
\<close>

theorem C4_start_preempts:
  assumes len: "data_length \<le> RLE_MAX_PDU_SIZE"
    and ctxs: "length (rle_ctx_man r) = RLE_MAX_FRAG_NUMBER"
    and ft: "get_recvd_fragment_type db = RLE_PDU_START_FRAG"
    and fid: "uint (get_fragment_id db) \<le> RLE_MAX_FRAG_ID"
    and busy: "is_context_free r (unat (get_fragment_id db)) = C_FALSE"
    and flush_keeps: "\<forall>c. lk_status (rle_ctx_flush_buffer x c) = lk_status c"
  shows
    "(let i = unat (get_fragment_id db);
          c0 = rle_ctx_man r ! i;
          c1 = rle_ctx_flush_buffer x
                 (rle_ctx_incr_counter_bytes_dropped (rle_ctx_incr_counter_dropped c0)
                    (ucast (remaining_alpdu_size c0)));
          released = r\<lparr>rle_ctx_man := (rle_ctx_man r)[i := c1],
                        free_ctx := rle_ctx_set_free (free_ctx r) i\<rparr>;
          res = reassembly_reassemble_pdu x c1 (rle_conf r ! i) db data_length
                  RLE_PDU_START_FRAG
      in rle_ctx_get_counter_dropped c1 = rle_ctx_get_counter_dropped c0 + 1
         \<and> is_context_free released i = C_TRUE
         \<and> rle_receiver_deencap_data x (Some r) (Some db) data_length index_ctx
             = rle_receiver_deencap_data x (Some released) (Some db) data_length index_ctx
         \<and> rle_receiver_deencap_data x (Some r) (Some db) data_length index_ctx
             = (if fst res \<noteq> C_OK \<and> fst res \<noteq> C_REASSEMBLY_OK
                then (fst res,
                      Some (r\<lparr>rle_ctx_man := (rle_ctx_man r)
                                [i := rle_ctx_flush_buffer x (rle_ctx_invalid_ctx x (snd res))],
                              free_ctx := rle_ctx_set_free (free_ctx r) i\<rparr>),
                      uint (get_fragment_id db))
                else (fst res,
                      Some (r\<lparr>rle_ctx_man := (rle_ctx_man r)[i := snd res]\<rparr>),
                      uint (get_fragment_id db))))"
proof -
  let ?i = "unat (get_fragment_id db)"
  let ?c0 = "rle_ctx_man r ! ?i"
  let ?c1 = "rle_ctx_flush_buffer x
               (rle_ctx_incr_counter_bytes_dropped (rle_ctx_incr_counter_dropped ?c0)
                  (ucast (remaining_alpdu_size ?c0)))"
  let ?rel = "r\<lparr>rle_ctx_man := (rle_ctx_man r)[?i := ?c1],
                free_ctx := rle_ctx_set_free (free_ctx r) ?i\<rparr>"
  let ?res = "reassembly_reassemble_pdu x ?c1 (rle_conf r ! ?i) db data_length
                RLE_PDU_START_FRAG"
  have nat: "nat (uint (get_fragment_id db)) = ?i" by simp
  from fid have i: "?i < 8"
    unfolding RLE_MAX_FRAG_ID_def by (rule fid_bound)
  from ctxs have l8: "length (rle_ctx_man r) = 8" by (simp add: RLE_MAX_FRAG_NUMBER_def)
  from ft have nc: "get_recvd_fragment_type db \<noteq> RLE_PDU_COMPLETE"
    by (simp add: RLE_PDU_COMPLETE_def RLE_PDU_START_FRAG_def)
  have tf: "C_TRUE \<noteq> C_FALSE" by (simp add: C_TRUE_def C_FALSE_def)
  from busy i have bit: "bit (free_ctx r) ?i"
    by (simp add: is_context_free_iff RLE_MAX_FRAG_NUMBER_def tf split: if_splits)
  have rel: "deencap_start_not_free x r ?i = ?rel"
    by (rule start_not_free_eq [OF i l8])
  have dropped: "rle_ctx_get_counter_dropped ?c1 = rle_ctx_get_counter_dropped ?c0 + 1"
    using flush_keeps by (simp add: rle_ctx_get_counter_dropped_def ctx_counters)
  from i have free': "is_context_free ?rel ?i = C_TRUE"
    by (simp add: is_context_free_iff bit_rle_ctx_set_free RLE_MAX_FRAG_NUMBER_def)
  have res: "rle_receiver_deencap_data x (Some r) (Some db) data_length index_ctx
               = deencap_reassemble x ?rel db data_length RLE_PDU_START_FRAG
                   (uint (get_fragment_id db))"
    using len ft nc fid busy
    by (simp add: rle_receiver_deencap_data_def Let_def nat rel)
  have res': "rle_receiver_deencap_data x (Some ?rel) (Some db) data_length index_ctx
               = deencap_reassemble x ?rel db data_length RLE_PDU_START_FRAG
                   (uint (get_fragment_id db))"
    using len ft nc fid free' tf
    by (simp add: rle_receiver_deencap_data_def Let_def nat)
  from i l8 have li: "?i < length (rle_ctx_man ?rel)" by simp
  have fin: "deencap_reassemble x ?rel db data_length RLE_PDU_START_FRAG
               (uint (get_fragment_id db))
      = (if fst ?res \<noteq> C_OK \<and> fst ?res \<noteq> C_REASSEMBLY_OK
         then (fst ?res,
               Some (r\<lparr>rle_ctx_man := (rle_ctx_man r)
                         [?i := rle_ctx_flush_buffer x (rle_ctx_invalid_ctx x (snd ?res))],
                       free_ctx := rle_ctx_set_free (free_ctx r) ?i\<rparr>),
               uint (get_fragment_id db))
         else (fst ?res,
               Some (r\<lparr>rle_ctx_man := (rle_ctx_man r)[?i := snd ?res]\<rparr>),
               uint (get_fragment_id db)))"
    using i l8 bit
      deencap_reassemble_eq [OF li, where x = x and db = db and len = data_length
        and ft = RLE_PDU_START_FRAG]
    by (simp add: Let_def set_free_of_free bit_rle_ctx_set_free set_nonfree_set_free)
  from dropped free' res res' fin show ?thesis
    by (simp only: Let_def)
qed

text \<open>
  Witness of C4: a START PPDU of 10 bytes for fragment id 2 on a receiver whose context
  2 is in use, 40 bytes short of its ALPDU. The call returns \<open>C_OK\<close> and leaves context
  2 in use, flushed, with one dropped SDU, 40 dropped bytes and the new fragment
  recorded. A START PPDU of 1 byte is refused by the example reassembly: the call
  returns \<open>C_ERROR\<close> and context 2 is flushed and free afterwards.
\<close>

theorem C4_start_preempts_witness:
  "(10 :: nat) \<le> RLE_MAX_PDU_SIZE
   \<and> length (rle_ctx_man rx_busy_example) = RLE_MAX_FRAG_NUMBER
   \<and> get_recvd_fragment_type (db_example 1 0 2) = RLE_PDU_START_FRAG
   \<and> uint (get_fragment_id (db_example 1 0 2)) \<le> RLE_MAX_FRAG_ID
   \<and> is_context_free rx_busy_example (unat (get_fragment_id (db_example 1 0 2))) = C_FALSE
   \<and> (\<forall>c. lk_status (rle_ctx_flush_buffer receiver_defs_example c) = lk_status c)
   \<and> rle_receiver_deencap_data receiver_defs_example (Some rx_busy_example)
        (Some (db_example 1 0 2)) 10 0
       = (C_OK,
          Some (rx_busy_example\<lparr>rle_ctx_man := (rle_ctx_man rx_busy_example)
                  [2 := ctx_blank\<lparr>rle_length := 10,
                         lk_status := (lk_status ctx_blank)
                           \<lparr>counter_dropped := 1, counter_bytes_dropped := 40\<rparr>\<rparr>]\<rparr>),
          2)
   \<and> rle_receiver_deencap_data receiver_defs_example (Some rx_busy_example)
        (Some (db_example 1 0 2)) 1 0
       = (C_ERROR,
          Some (rx_busy_example\<lparr>rle_ctx_man := (rle_ctx_man rx_busy_example)
                  [2 := ctx_blank\<lparr>lk_status := (lk_status ctx_blank)
                           \<lparr>counter_dropped := 1, counter_bytes_dropped := 40\<rparr>\<rparr>],
                  free_ctx := 0\<rparr>),
          2)"
proof -
  have h1: "(10 :: nat) \<le> RLE_MAX_PDU_SIZE" by (simp add: RLE_MAX_PDU_SIZE_def)
  have h1': "(1 :: nat) \<le> RLE_MAX_PDU_SIZE" by (simp add: RLE_MAX_PDU_SIZE_def)
  have h2: "length (rle_ctx_man rx_busy_example) = RLE_MAX_FRAG_NUMBER"
    by (simp add: rx_busy_example_def RLE_MAX_FRAG_NUMBER_def)
  have h3: "get_recvd_fragment_type (db_example 1 0 2) = RLE_PDU_START_FRAG"
    by (simp add: get_recvd_fragment_type_def db_example_def)
  have id: "get_fragment_id (db_example 1 0 2) = 2"
    by (simp add: get_fragment_id_def db_example_def)
  have h4: "uint (get_fragment_id (db_example 1 0 2)) \<le> RLE_MAX_FRAG_ID"
    by (simp add: id RLE_MAX_FRAG_ID_def)
  have h5: "is_context_free rx_busy_example (unat (get_fragment_id (db_example 1 0 2))) = C_FALSE"
    by (simp add: id is_context_free_iff rx_busy_example_def RLE_MAX_FRAG_NUMBER_def)
  have h6: "\<forall>c. lk_status (rle_ctx_flush_buffer receiver_defs_example c) = lk_status c"
    by (simp add: receiver_defs_example_def rle_ctx_flush_buffer_spec_def)
  have c2: "rle_ctx_man rx_busy_example ! 2
              = ctx_blank\<lparr>alpdu_size := 100, remaining_alpdu_size := 40\<rparr>"
    by (simp add: rx_busy_example_def replicate8)
  have fc: "rle_ctx_set_free (free_ctx rx_busy_example) 2 = 0"
    by (simp add: rx_busy_example_def rle_ctx_set_free_def)
  have a: "rle_receiver_deencap_data receiver_defs_example (Some rx_busy_example)
        (Some (db_example 1 0 2)) 10 0
       = (C_OK,
          Some (rx_busy_example\<lparr>rle_ctx_man := (rle_ctx_man rx_busy_example)
                  [2 := ctx_blank\<lparr>rle_length := 10,
                         lk_status := (lk_status ctx_blank)
                           \<lparr>counter_dropped := 1, counter_bytes_dropped := 40\<rparr>\<rparr>]\<rparr>),
          2)"
    using C4_start_preempts [OF h1 h2 h3 h4 h5 h6, where index_ctx = 0, unfolded Let_def,
        THEN conjunct2, THEN conjunct2, THEN conjunct2]
    by (simp add: id c2 receiver_defs_example_def reassembly_example_def
        rle_ctx_flush_buffer_spec_def ctx_counters const_defs ctx_blank_def)
  have b: "rle_receiver_deencap_data receiver_defs_example (Some rx_busy_example)
        (Some (db_example 1 0 2)) 1 0
       = (C_ERROR,
          Some (rx_busy_example\<lparr>rle_ctx_man := (rle_ctx_man rx_busy_example)
                  [2 := ctx_blank\<lparr>lk_status := (lk_status ctx_blank)
                           \<lparr>counter_dropped := 1, counter_bytes_dropped := 40\<rparr>\<rparr>],
                  free_ctx := 0\<rparr>),
          2)"
    using C4_start_preempts [OF h1' h2 h3 h4 h5 h6, where index_ctx = 0, unfolded Let_def,
        THEN conjunct2, THEN conjunct2, THEN conjunct2]
    by (simp add: id c2 fc receiver_defs_example_def reassembly_example_def
        rle_ctx_flush_buffer_spec_def ctx_counters const_defs ctx_blank_def)
  from h1 h2 h3 h4 h5 h6 a b show ?thesis by blast
qed

subsection \<open>C5: COMPLETE and the search for a free context\<close>

text \<open>
  C5, as amended. For every COMPLETE PPDU that passes the size check: when all 8
  contexts are in use, \<open>rle_receiver_deencap_data\<close> returns \<open>C_ERROR\<close>, leaves the
  receiver as it was (no counter changes) and leaves -1 in \<open>*index_ctx\<close>; when a context
  is free, the free context of lowest index is taken, its index is left in
  \<open>*index_ctx\<close>, the PPDU is reassembled in it and the call returns the code of that
  reassembly. When reassembly accepts the PPDU the call leaves that context marked in
  use, holding what reassembly stored; when it refuses, the context is invalidated,
  flushed and left free. No other context and no other bit changes.
\<close>

theorem C5_complete:
  assumes len: "data_length \<le> RLE_MAX_PDU_SIZE"
    and ctxs: "length (rle_ctx_man r) = RLE_MAX_FRAG_NUMBER"
    and ft: "get_recvd_fragment_type db = RLE_PDU_COMPLETE"
  shows "((\<forall>i<RLE_MAX_FRAG_NUMBER. is_context_free r i = C_FALSE) \<longrightarrow>
            rle_receiver_deencap_data x (Some r) (Some db) data_length index_ctx
              = (C_ERROR, Some r, - 1))
       \<and> ((\<exists>i<RLE_MAX_FRAG_NUMBER. is_context_free r i = C_TRUE) \<longrightarrow>
            (\<exists>i<RLE_MAX_FRAG_NUMBER.
               is_context_free r i = C_TRUE
               \<and> (\<forall>j<i. is_context_free r j = C_FALSE)
               \<and> (let res = reassembly_reassemble_pdu x (rle_ctx_man r ! i) (rle_conf r ! i)
                               db data_length RLE_PDU_COMPLETE
                  in rle_receiver_deencap_data x (Some r) (Some db) data_length index_ctx
                     = (if fst res \<noteq> C_OK \<and> fst res \<noteq> C_REASSEMBLY_OK
                        then (fst res,
                              Some (r\<lparr>rle_ctx_man := (rle_ctx_man r)
                                        [i := rle_ctx_flush_buffer x
                                                (rle_ctx_invalid_ctx x (snd res))]\<rparr>),
                              int i)
                        else (fst res,
                              Some (r\<lparr>rle_ctx_man := (rle_ctx_man r)[i := snd res],
                                      free_ctx := rle_ctx_set_nonfree (free_ctx r) i\<rparr>),
                              int i))
                     \<and> is_context_free
                          (r\<lparr>rle_ctx_man := (rle_ctx_man r)[i := snd res],
                             free_ctx := rle_ctx_set_nonfree (free_ctx r) i\<rparr>) i = C_FALSE)))"
proof (intro conjI impI)
  assume "\<forall>i<RLE_MAX_FRAG_NUMBER. is_context_free r i = C_FALSE"
  then have "free_ctx r = 0xFF" by (simp only: all_busy_iff)
  then have "get_first_free_frag_ctx r = C_ERROR" by (rule get_first_free_none)
  with len ft show "rle_receiver_deencap_data x (Some r) (Some db) data_length index_ctx
      = (C_ERROR, Some r, - 1)"
    by (simp add: rle_receiver_deencap_data_def Let_def C_ERROR_def)
next
  have tf: "C_TRUE \<noteq> C_FALSE" by (simp add: C_TRUE_def C_FALSE_def)
  from ctxs have l8: "length (rle_ctx_man r) = 8" by (simp add: RLE_MAX_FRAG_NUMBER_def)
  assume "\<exists>i<RLE_MAX_FRAG_NUMBER. is_context_free r i = C_TRUE"
  with tf have "\<not> (\<forall>i<RLE_MAX_FRAG_NUMBER. is_context_free r i = C_FALSE)" by auto
  then have "free_ctx r \<noteq> 0xFF" unfolding all_busy_iff .
  then obtain i where i: "i < 8" "\<not> bit (free_ctx r) i" "\<forall>j<i. bit (free_ctx r) j"
      "get_first_free_frag_ctx r = int i"
    using get_first_free_some [of r] by blast
  let ?res = "reassembly_reassemble_pdu x (rle_ctx_man r ! i) (rle_conf r ! i)
                db data_length RLE_PDU_COMPLETE"
  from i(1) l8 have li: "i < length (rle_ctx_man r)" by simp
  from i len ft
  have res: "rle_receiver_deencap_data x (Some r) (Some db) data_length index_ctx
               = deencap_reassemble x r db data_length RLE_PDU_COMPLETE (int i)"
    by (simp add: rle_receiver_deencap_data_def Let_def)
  have fin: "rle_receiver_deencap_data x (Some r) (Some db) data_length index_ctx
      = (if fst ?res \<noteq> C_OK \<and> fst ?res \<noteq> C_REASSEMBLY_OK
         then (fst ?res,
               Some (r\<lparr>rle_ctx_man := (rle_ctx_man r)
                         [i := rle_ctx_flush_buffer x (rle_ctx_invalid_ctx x (snd ?res))]\<rparr>),
               int i)
         else (fst ?res,
               Some (r\<lparr>rle_ctx_man := (rle_ctx_man r)[i := snd ?res],
                       free_ctx := rle_ctx_set_nonfree (free_ctx r) i\<rparr>),
               int i))"
    using i(2)
    by (simp add: res deencap_reassemble_eq [OF li] Let_def set_free_of_free)
  from i have fr: "is_context_free r i = C_TRUE" "\<forall>j<i. is_context_free r j = C_FALSE"
    by (simp_all add: is_context_free_iff RLE_MAX_FRAG_NUMBER_def)
  from i(1) have used: "is_context_free
      (r\<lparr>rle_ctx_man := (rle_ctx_man r)[i := snd ?res],
         free_ctx := rle_ctx_set_nonfree (free_ctx r) i\<rparr>) i = C_FALSE"
    by (simp add: is_context_free_iff RLE_MAX_FRAG_NUMBER_def bit_rle_ctx_set_nonfree)
  from i(1) have "i < RLE_MAX_FRAG_NUMBER" by (simp add: RLE_MAX_FRAG_NUMBER_def)
  with fr fin used show "\<exists>i<RLE_MAX_FRAG_NUMBER.
               is_context_free r i = C_TRUE
               \<and> (\<forall>j<i. is_context_free r j = C_FALSE)
               \<and> (let res = reassembly_reassemble_pdu x (rle_ctx_man r ! i) (rle_conf r ! i)
                               db data_length RLE_PDU_COMPLETE
                  in rle_receiver_deencap_data x (Some r) (Some db) data_length index_ctx
                     = (if fst res \<noteq> C_OK \<and> fst res \<noteq> C_REASSEMBLY_OK
                        then (fst res,
                              Some (r\<lparr>rle_ctx_man := (rle_ctx_man r)
                                        [i := rle_ctx_flush_buffer x
                                                (rle_ctx_invalid_ctx x (snd res))]\<rparr>),
                              int i)
                        else (fst res,
                              Some (r\<lparr>rle_ctx_man := (rle_ctx_man r)[i := snd res],
                                      free_ctx := rle_ctx_set_nonfree (free_ctx r) i\<rparr>),
                              int i))
                     \<and> is_context_free
                          (r\<lparr>rle_ctx_man := (rle_ctx_man r)[i := snd res],
                             free_ctx := rle_ctx_set_nonfree (free_ctx r) i\<rparr>) i = C_FALSE)"
    unfolding Let_def by blast
qed

text \<open>
  Witness of C5: a COMPLETE PPDU on a receiver with every context in use, and on a
  receiver whose contexts 0, 1 and 2 are in use. There context 3 is taken: a PPDU of 10
  bytes is stored in it and leaves it in use (bitmap 15); a PPDU of 1 byte is refused
  by the example reassembly and leaves the receiver with context 3 free again.
\<close>

theorem C5_complete_witness:
  "(10 :: nat) \<le> RLE_MAX_PDU_SIZE
   \<and> length (rle_ctx_man (rx_example 7)) = RLE_MAX_FRAG_NUMBER
   \<and> get_recvd_fragment_type (db_example 1 1 0) = RLE_PDU_COMPLETE
   \<and> map (is_context_free (rx_example 0xFF)) [0..<8] = replicate 8 C_FALSE
   \<and> rle_receiver_deencap_data receiver_defs_example (Some (rx_example 0xFF))
        (Some (db_example 1 1 0)) 10 0 = (C_ERROR, Some (rx_example 0xFF), - 1)
   \<and> map (is_context_free (rx_example 7)) [0..<8]
       = [C_FALSE, C_FALSE, C_FALSE, C_TRUE, C_TRUE, C_TRUE, C_TRUE, C_TRUE]
   \<and> rle_receiver_deencap_data receiver_defs_example (Some (rx_example 7))
        (Some (db_example 1 1 0)) 10 0
       = (C_REASSEMBLY_OK,
          Some ((rx_example 7)\<lparr>rle_ctx_man := (rle_ctx_man (rx_example 7))
                                  [3 := ctx_blank\<lparr>rle_length := 10\<rparr>],
                                free_ctx := 15\<rparr>),
          3)
   \<and> rle_receiver_deencap_data receiver_defs_example (Some (rx_example 7))
        (Some (db_example 1 1 0)) 1 0
       = (C_ERROR, Some (rx_example 7), 3)"
proof -
  have h1: "(10 :: nat) \<le> RLE_MAX_PDU_SIZE" by (simp add: RLE_MAX_PDU_SIZE_def)
  have h1': "(1 :: nat) \<le> RLE_MAX_PDU_SIZE" by (simp add: RLE_MAX_PDU_SIZE_def)
  have l7: "length (rle_ctx_man (rx_example 7)) = RLE_MAX_FRAG_NUMBER"
    by (simp add: rx_example_def RLE_MAX_FRAG_NUMBER_def)
  have lF: "length (rle_ctx_man (rx_example 0xFF)) = RLE_MAX_FRAG_NUMBER"
    by (simp add: rx_example_def RLE_MAX_FRAG_NUMBER_def)
  have h2: "get_recvd_fragment_type (db_example 1 1 0) = RLE_PDU_COMPLETE"
    by (simp add: get_recvd_fragment_type_def db_example_def)
  have busy: "\<forall>i<RLE_MAX_FRAG_NUMBER. is_context_free (rx_example 0xFF) i = C_FALSE"
    by (simp only: all_busy_iff) (simp add: rx_example_def)
  have tf: "C_TRUE \<noteq> C_FALSE" by (simp add: C_TRUE_def C_FALSE_def)
  have f3: "is_context_free (rx_example 7) 3 = C_TRUE"
    by (simp add: is_context_free_iff rx_example_def RLE_MAX_FRAG_NUMBER_def)
  have "(3 :: nat) < RLE_MAX_FRAG_NUMBER" by (simp add: RLE_MAX_FRAG_NUMBER_def)
  with f3 have free: "\<exists>i<RLE_MAX_FRAG_NUMBER. is_context_free (rx_example 7) i = C_TRUE"
    by blast
  have b012: "\<And>j. j < 3 \<Longrightarrow> is_context_free (rx_example 7) j = C_FALSE"
  proof -
    fix j :: nat assume "j < 3"
    then have "j = 0 \<or> j = 1 \<or> j = 2" by auto
    then show "is_context_free (rx_example 7) j = C_FALSE"
      by (auto simp add: is_context_free_iff rx_example_def RLE_MAX_FRAG_NUMBER_def)
  qed
  have only3: "\<And>i. is_context_free (rx_example 7) i = C_TRUE \<Longrightarrow>
      \<forall>j<i. is_context_free (rx_example 7) j = C_FALSE \<Longrightarrow> i = 3"
  proof (rule ccontr)
    fix i assume a: "is_context_free (rx_example 7) i = C_TRUE"
      "\<forall>j<i. is_context_free (rx_example 7) j = C_FALSE" "i \<noteq> 3"
    then have "i < 3 \<or> 3 < i" by auto
    with a b012 f3 tf show False by auto
  qed
  have c3: "rle_ctx_man (rx_example 7) ! 3 = ctx_blank" "rle_conf (rx_example 7) ! 3 = conf_blank"
    by (simp_all add: rx_example_def replicate8)
  have fc: "rle_ctx_set_nonfree (free_ctx (rx_example 7)) 3 = 15"
    by (simp add: rx_example_def rle_ctx_set_nonfree_def)
  have same: "(rx_example 7)\<lparr>rle_ctx_man := (rle_ctx_man (rx_example 7))[3 := ctx_blank]\<rparr>
      = rx_example 7"
    by (simp add: rx_example_def replicate8)
  from C5_complete [OF h1 lF h2, of receiver_defs_example 0] busy
  have a: "rle_receiver_deencap_data receiver_defs_example (Some (rx_example 0xFF))
        (Some (db_example 1 1 0)) 10 0 = (C_ERROR, Some (rx_example 0xFF), - 1)"
    by blast
  from C5_complete [OF h1 l7 h2, of receiver_defs_example 0, unfolded Let_def] free
  obtain i where i: "is_context_free (rx_example 7) i = C_TRUE"
      "\<forall>j<i. is_context_free (rx_example 7) j = C_FALSE"
      "rle_receiver_deencap_data receiver_defs_example (Some (rx_example 7))
         (Some (db_example 1 1 0)) 10 0
       = (if fst (reassembly_reassemble_pdu receiver_defs_example (rle_ctx_man (rx_example 7) ! i)
                    (rle_conf (rx_example 7) ! i) (db_example 1 1 0) 10 RLE_PDU_COMPLETE) \<noteq> C_OK
             \<and> fst (reassembly_reassemble_pdu receiver_defs_example
                    (rle_ctx_man (rx_example 7) ! i) (rle_conf (rx_example 7) ! i)
                    (db_example 1 1 0) 10 RLE_PDU_COMPLETE) \<noteq> C_REASSEMBLY_OK
          then (fst (reassembly_reassemble_pdu receiver_defs_example
                       (rle_ctx_man (rx_example 7) ! i) (rle_conf (rx_example 7) ! i)
                       (db_example 1 1 0) 10 RLE_PDU_COMPLETE),
                Some ((rx_example 7)\<lparr>rle_ctx_man := (rle_ctx_man (rx_example 7))
                        [i := rle_ctx_flush_buffer receiver_defs_example
                                (rle_ctx_invalid_ctx receiver_defs_example
                                   (snd (reassembly_reassemble_pdu receiver_defs_example
                                      (rle_ctx_man (rx_example 7) ! i)
                                      (rle_conf (rx_example 7) ! i) (db_example 1 1 0) 10
                                      RLE_PDU_COMPLETE)))]\<rparr>),
                int i)
          else (fst (reassembly_reassemble_pdu receiver_defs_example
                       (rle_ctx_man (rx_example 7) ! i) (rle_conf (rx_example 7) ! i)
                       (db_example 1 1 0) 10 RLE_PDU_COMPLETE),
                Some ((rx_example 7)\<lparr>rle_ctx_man := (rle_ctx_man (rx_example 7))
                        [i := snd (reassembly_reassemble_pdu receiver_defs_example
                                     (rle_ctx_man (rx_example 7) ! i)
                                     (rle_conf (rx_example 7) ! i) (db_example 1 1 0) 10
                                     RLE_PDU_COMPLETE)],
                        free_ctx := rle_ctx_set_nonfree (free_ctx (rx_example 7)) i\<rparr>),
                int i))"
    by blast
  from only3 [OF i(1,2)] have i3: "i = 3" .
  have b: "rle_receiver_deencap_data receiver_defs_example (Some (rx_example 7))
        (Some (db_example 1 1 0)) 10 0
       = (C_REASSEMBLY_OK,
          Some ((rx_example 7)\<lparr>rle_ctx_man := (rle_ctx_man (rx_example 7))
                                  [3 := ctx_blank\<lparr>rle_length := 10\<rparr>],
                                free_ctx := 15\<rparr>),
          3)"
    using i(3) unfolding i3
    by (simp add: c3 fc receiver_defs_example_def reassembly_example_def const_defs)
  from C5_complete [OF h1' l7 h2, of receiver_defs_example 0, unfolded Let_def] free
  obtain k where k: "is_context_free (rx_example 7) k = C_TRUE"
      "\<forall>j<k. is_context_free (rx_example 7) j = C_FALSE"
      "rle_receiver_deencap_data receiver_defs_example (Some (rx_example 7))
         (Some (db_example 1 1 0)) 1 0
       = (if fst (reassembly_reassemble_pdu receiver_defs_example (rle_ctx_man (rx_example 7) ! k)
                    (rle_conf (rx_example 7) ! k) (db_example 1 1 0) 1 RLE_PDU_COMPLETE) \<noteq> C_OK
             \<and> fst (reassembly_reassemble_pdu receiver_defs_example
                    (rle_ctx_man (rx_example 7) ! k) (rle_conf (rx_example 7) ! k)
                    (db_example 1 1 0) 1 RLE_PDU_COMPLETE) \<noteq> C_REASSEMBLY_OK
          then (fst (reassembly_reassemble_pdu receiver_defs_example
                       (rle_ctx_man (rx_example 7) ! k) (rle_conf (rx_example 7) ! k)
                       (db_example 1 1 0) 1 RLE_PDU_COMPLETE),
                Some ((rx_example 7)\<lparr>rle_ctx_man := (rle_ctx_man (rx_example 7))
                        [k := rle_ctx_flush_buffer receiver_defs_example
                                (rle_ctx_invalid_ctx receiver_defs_example
                                   (snd (reassembly_reassemble_pdu receiver_defs_example
                                      (rle_ctx_man (rx_example 7) ! k)
                                      (rle_conf (rx_example 7) ! k) (db_example 1 1 0) 1
                                      RLE_PDU_COMPLETE)))]\<rparr>),
                int k)
          else (fst (reassembly_reassemble_pdu receiver_defs_example
                       (rle_ctx_man (rx_example 7) ! k) (rle_conf (rx_example 7) ! k)
                       (db_example 1 1 0) 1 RLE_PDU_COMPLETE),
                Some ((rx_example 7)\<lparr>rle_ctx_man := (rle_ctx_man (rx_example 7))
                        [k := snd (reassembly_reassemble_pdu receiver_defs_example
                                     (rle_ctx_man (rx_example 7) ! k)
                                     (rle_conf (rx_example 7) ! k) (db_example 1 1 0) 1
                                     RLE_PDU_COMPLETE)],
                        free_ctx := rle_ctx_set_nonfree (free_ctx (rx_example 7)) k\<rparr>),
                int k))"
    by blast
  from only3 [OF k(1,2)] have k3: "k = 3" .
  have fl: "rle_ctx_flush_buffer_spec ctx_blank = ctx_blank"
    by (simp add: rle_ctx_flush_buffer_spec_def ctx_blank_def C_FALSE_def)
  have c: "rle_receiver_deencap_data receiver_defs_example (Some (rx_example 7))
        (Some (db_example 1 1 0)) 1 0 = (C_ERROR, Some (rx_example 7), 3)"
    using k(3) unfolding k3
    by (simp add: c3 receiver_defs_example_def reassembly_example_def const_defs fl same)
  have m1: "map (is_context_free (rx_example 0xFF)) [0..<8] = replicate 8 C_FALSE"
    by (simp add: upt8 replicate8 is_context_free_iff rx_example_def RLE_MAX_FRAG_NUMBER_def)
  have m2: "map (is_context_free (rx_example 7)) [0..<8]
       = [C_FALSE, C_FALSE, C_FALSE, C_TRUE, C_TRUE, C_TRUE, C_TRUE, C_TRUE]"
    by (simp add: upt8 is_context_free_iff rx_example_def RLE_MAX_FRAG_NUMBER_def)
  from h1 l7 h2 m1 a m2 b c show ?thesis by blast
qed

text \<open>
  Counterexample to C5 as stated: every context is in use and a COMPLETE PPDU arrives;
  the call returns \<open>C_ERROR\<close> and the receiver is the one before the call, whose
  dropped counters are all 0: no dropped counter went up.
\<close>

theorem C5_counterexample:
  "map (is_context_free (rx_example 0xFF)) [0..<8] = replicate 8 C_FALSE
   \<and> get_recvd_fragment_type (db_example 1 1 0) = RLE_PDU_COMPLETE
   \<and> rle_receiver_deencap_data receiver_defs_example (Some (rx_example 0xFF))
        (Some (db_example 1 1 0)) 10 0
       = (C_ERROR, Some (rx_example 0xFF), - 1)
   \<and> map rle_ctx_get_counter_dropped (rle_ctx_man (rx_example 0xFF)) = replicate 8 0"
proof -
  have a: "map (is_context_free (rx_example 0xFF)) [0..<8] = replicate 8 C_FALSE"
    by (simp add: upt8 replicate8 is_context_free_iff rx_example_def RLE_MAX_FRAG_NUMBER_def)
  have b: "get_recvd_fragment_type (db_example 1 1 0) = RLE_PDU_COMPLETE"
    by (simp add: get_recvd_fragment_type_def db_example_def)
  have c: "get_first_free_frag_ctx (rx_example 0xFF) = C_ERROR"
    by (rule get_first_free_none) (simp add: rx_example_def)
  have d: "rle_receiver_deencap_data receiver_defs_example (Some (rx_example 0xFF))
        (Some (db_example 1 1 0)) 10 0 = (C_ERROR, Some (rx_example 0xFF), - 1)"
    using b c by (simp add: rle_receiver_deencap_data_def Let_def const_defs)
  have e: "map rle_ctx_get_counter_dropped (rle_ctx_man (rx_example 0xFF)) = replicate 8 0"
    by (simp add: rx_example_def rle_ctx_get_counter_dropped_def ctx_blank_def)
  from a b d e show ?thesis by blast
qed

subsection \<open>C6: an SDU that is too large\<close>

text \<open>
  C6. For every SDU longer than \<open>RLE_MAX_PDU_SIZE\<close> (4088 bytes),
  \<open>encap_encapsulate_pdu\<close> returns \<open>C_ERROR\<close>; the dropped counter of the context goes
  up by 1 and the dropped bytes by the length of the SDU (as do the two input counters),
  and nothing else changes: every other field of the context and the header buffer are
  as before, so no ALPDU is stored.
\<close>

theorem C6_too_large:
  assumes "len > RLE_MAX_PDU_SIZE"
  shows "encap_encapsulate_pdu x c h conf b len pt =
    (C_ERROR,
     c\<lparr>lk_status := (lk_status c)
         \<lparr>counter_in := counter_in (lk_status c) + 1,
          counter_bytes_in := counter_bytes_in (lk_status c) + of_nat len,
          counter_dropped := counter_dropped (lk_status c) + 1,
          counter_bytes_dropped := counter_bytes_dropped (lk_status c) + of_nat len\<rparr>\<rparr>,
     h)"
  using assms
  by (simp add: encap_encapsulate_pdu_def encap_check_pdu_validity_def Let_def ctx_counters)

text \<open>Witness of C6: an SDU of 4089 bytes on a blank context.\<close>

theorem C6_too_large_witness:
  "(4089 :: nat) > RLE_MAX_PDU_SIZE
   \<and> encap_encapsulate_pdu header_defs_example ctx_blank hdr_blank conf_blank 1000 4089 0x0800
       = (C_ERROR,
          ctx_blank\<lparr>lk_status :=
            \<lparr>counter_in = 1, counter_ok = 0, counter_dropped = 1, counter_lost = 0,
             counter_bytes_in = 4089, counter_bytes_ok = 0, counter_bytes_dropped = 4089\<rparr>\<rparr>,
          hdr_blank)"
proof -
  have h: "(4089 :: nat) > RLE_MAX_PDU_SIZE" by (simp add: RLE_MAX_PDU_SIZE_def)
  from h C6_too_large [OF h, where x = header_defs_example and c = ctx_blank and h = hdr_blank
      and conf = conf_blank and b = 1000 and pt = "0x0800"]
  show ?thesis by (simp add: ctx_blank_def)
qed

subsection \<open>C7: the reserved implicit protocol type\<close>

text \<open>
  C7. When the implicit protocol type of the configuration is 0x31,
  \<open>rle_transmitter_new\<close> returns no transmitter. For any other implicit protocol type it
  returns no transmitter only when one of its two allocations fails.
\<close>

theorem C7_new:
  "(implicit_protocol_type cfg = RLE_PROTO_TYPE_VLAN_COMP_WO_PTYPE_FIELD \<longrightarrow>
      rle_transmitter_new init mem new_conf cfg = None)
   \<and> (implicit_protocol_type cfg \<noteq> RLE_PROTO_TYPE_VLAN_COMP_WO_PTYPE_FIELD \<longrightarrow>
        (rle_transmitter_new init mem new_conf cfg = None) = (mem = None \<or> new_conf = None))"
  by (simp add: rle_transmitter_new_def split: option.splits)

text \<open>
  Witness of C7: the configuration with implicit type 0x31 gives no transmitter; the
  configuration with implicit type 0 gives one when both allocations succeed.
\<close>

theorem C7_new_witness:
  "implicit_protocol_type cfg_reserved_example = RLE_PROTO_TYPE_VLAN_COMP_WO_PTYPE_FIELD
   \<and> rle_transmitter_new init_f_buff_example (Some (tx_example 0)) (Some conf_blank)
        cfg_reserved_example = None
   \<and> implicit_protocol_type cfg_crc_example \<noteq> RLE_PROTO_TYPE_VLAN_COMP_WO_PTYPE_FIELD
   \<and> rle_transmitter_new init_f_buff_example (Some (tx_example 0)) (Some conf_blank)
        cfg_crc_example \<noteq> None"
proof -
  have a: "implicit_protocol_type cfg_reserved_example = RLE_PROTO_TYPE_VLAN_COMP_WO_PTYPE_FIELD"
    by (simp add: cfg_reserved_example_def RLE_PROTO_TYPE_VLAN_COMP_WO_PTYPE_FIELD_def)
  have b: "implicit_protocol_type cfg_crc_example \<noteq> RLE_PROTO_TYPE_VLAN_COMP_WO_PTYPE_FIELD"
    by (simp add: cfg_crc_example_def RLE_PROTO_TYPE_VLAN_COMP_WO_PTYPE_FIELD_def)
  from a b
    C7_new [of cfg_reserved_example init_f_buff_example "Some (tx_example 0)" "Some conf_blank"]
    C7_new [of cfg_crc_example init_f_buff_example "Some (tx_example 0)" "Some conf_blank"]
  show ?thesis by simp
qed

subsection \<open>C8: the label type and the protocol type field\<close>




subsection \<open>C9: the input counters count attempts\<close>

text \<open>
  C9. Every call of \<open>encap_encapsulate_pdu\<close> adds 1 to \<open>counter_in\<close> and the length of
  the SDU to \<open>counter_bytes_in\<close>, also when the SDU is rejected as too large: the call
  then returns \<open>C_ERROR\<close> and the two counters have advanced all the same.
\<close>

theorem C9_counter_in:
  "rle_ctx_get_counter_in (fst (snd (encap_encapsulate_pdu x c h conf b len pt)))
     = rle_ctx_get_counter_in c + 1
   \<and> rle_ctx_get_counter_bytes_in (fst (snd (encap_encapsulate_pdu x c h conf b len pt)))
     = rle_ctx_get_counter_bytes_in c + of_nat len
   \<and> (len > RLE_MAX_PDU_SIZE \<longrightarrow>
        fst (encap_encapsulate_pdu x c h conf b len pt) = C_ERROR)"
proof (cases "len > RLE_MAX_PDU_SIZE")
  case True
  then show ?thesis
    by (simp add: encap_ko rle_ctx_get_counter_in_def rle_ctx_get_counter_bytes_in_def
        ctx_counters)
next
  case False
  then have "len \<le> RLE_MAX_PDU_SIZE" by simp
  then show ?thesis
    by (simp add: encap_ok create_header_lk_status rle_ctx_get_counter_in_def
        rle_ctx_get_counter_bytes_in_def ctx_counters)
qed

text \<open>Witness of C9: a rejected SDU of 4089 bytes on a blank context.\<close>

theorem C9_counter_in_witness:
  "(4089 :: nat) > RLE_MAX_PDU_SIZE
   \<and> rle_ctx_get_counter_in
        (fst (snd (encap_encapsulate_pdu header_defs_example ctx_blank hdr_blank conf_blank
                     1000 4089 0x0800))) = 1
   \<and> rle_ctx_get_counter_bytes_in
        (fst (snd (encap_encapsulate_pdu header_defs_example ctx_blank hdr_blank conf_blank
                     1000 4089 0x0800))) = 4089
   \<and> fst (encap_encapsulate_pdu header_defs_example ctx_blank hdr_blank conf_blank
            1000 4089 0x0800) = C_ERROR"
proof -
  have h: "(4089 :: nat) > RLE_MAX_PDU_SIZE" by (simp add: RLE_MAX_PDU_SIZE_def)
  have z: "rle_ctx_get_counter_in ctx_blank = 0" "rle_ctx_get_counter_bytes_in ctx_blank = 0"
    by (simp_all add: ctx_blank_def rle_ctx_get_counter_in_def rle_ctx_get_counter_bytes_in_def)
  from h z C9_counter_in [where x = header_defs_example and c = ctx_blank and h = hdr_blank
      and conf = conf_blank and b = 1000 and len = 4089 and pt = "0x0800"]
  show ?thesis by simp
qed

subsection \<open>C10: a PPDU that is too long\<close>

text \<open>
  C10. For every input longer than \<open>RLE_MAX_PDU_SIZE\<close> (4088 bytes),
  \<open>rle_receiver_deencap_data\<close> returns \<open>C_ERROR\<close> before it looks at the fragment type:
  the receiver, with its contexts, counters and bitmap, and \<open>*index_ctx\<close> are unchanged.
\<close>

theorem C10_too_long:
  assumes "data_length > RLE_MAX_PDU_SIZE"
  shows "rle_receiver_deencap_data x this data_buffer data_length index_ctx
           = (C_ERROR, this, index_ctx)"
  using assms by (simp add: rle_receiver_deencap_data_def split: option.splits)

text \<open>Witness of C10: a CONT PPDU announced with 5000 bytes.\<close>

theorem C10_too_long_witness:
  "(5000 :: nat) > RLE_MAX_PDU_SIZE
   \<and> rle_receiver_deencap_data receiver_defs_example (Some (rx_example 0))
        (Some (db_example 0 0 3)) 5000 0 = (C_ERROR, Some (rx_example 0), 0)"
proof -
  have h: "(5000 :: nat) > RLE_MAX_PDU_SIZE" by (simp add: RLE_MAX_PDU_SIZE_def)
  from h C10_too_long [OF h, where x = receiver_defs_example and this = "Some (rx_example 0)"
      and data_buffer = "Some (db_example 0 0 3)" and index_ctx = 0]
  show ?thesis by simp
qed

end
